theory Spec2Isabelle
  imports
    Complex_Main
    "HOL-Library.Multiset"
    "HOL-Library.Sublist"
    "HOL-Library.Char_ord"
    "HOL-Library.List_Lexorder"
begin

section \<open>Data model (src/types.ts)\<close>

text \<open>
  \<^verbatim>\<open>TodoStatus = 'pending' | 'done'\<close> and the interface \<^verbatim>\<open>Todo\<close>. The optional
  members \<^verbatim>\<open>description?\<close>, \<^verbatim>\<open>dueDate?\<close>, \<^verbatim>\<open>priority?\<close> are options: \<open>None\<close> is the
  JavaScript \<^verbatim>\<open>undefined\<close>. Strings are compared, as JavaScript does, code unit by code
  unit; on the ASCII timestamps the server produces that is the lexicographic order of
  \<open>string\<close>.
\<close>

datatype TodoStatus = Pending | Done

record Todo =
  id :: string
  title :: string
  description :: "string option"
  status :: TodoStatus
  createdAt :: string
  updatedAt :: string
  dueDate :: "string option"
  priority :: "int option"

section \<open>Request bodies\<close>

text \<open>
  What \<^verbatim>\<open>express.json()\<close> hands to a handler as \<^verbatim>\<open>req.body\<close>. An object is the list
  of its properties, read with \<open>map_of\<close>. A number that is not an integer is
  rejected by every numeric schema below exactly as an integer out of range is.
\<close>

datatype json =
    JNull
  | JBool bool
  | JNum int
  | JStr string
  | JArr "json list"
  | JObj "(string \<times> json) list"

section \<open>Validators (src/validators.ts)\<close>

text \<open>
  A field schema maps the property's value (\<open>None\<close> when the key is absent) to
  \<open>None\<close> when zod raises an issue for it, and to \<open>Some\<close> of the parsed value
  otherwise. The three shapes a value of an \<^verbatim>\<open>.optional().nullable()\<close> field has are
  kept apart: \<^verbatim>\<open>undefined\<close>, \<^verbatim>\<open>null\<close>, a value.
\<close>

datatype 'a nullable = Undefined | Null | Value 'a

definition z_string :: "nat \<Rightarrow> nat \<Rightarrow> json \<Rightarrow> string option" where
  "z_string lo hi v =
     (case v of
        JStr s \<Rightarrow> if lo \<le> length s \<and> length s \<le> hi then Some s else None
      | _ \<Rightarrow> None)"

text \<open>
  \<^verbatim>\<open>z.string().datetime()\<close>: the test zod applies to the string is the library's and
  is a parameter \<open>dt\<close> of every schema that uses it.
\<close>

definition z_datetime :: "(string \<Rightarrow> bool) \<Rightarrow> json \<Rightarrow> string option" where
  "z_datetime dt v = (case v of JStr s \<Rightarrow> if dt s then Some s else None | _ \<Rightarrow> None)"

definition z_priority :: "json \<Rightarrow> int option" where
  "z_priority v =
     (case v of
        JNum n \<Rightarrow> if n = 1 \<or> n = 2 \<or> n = 3 then Some n else None
      | _ \<Rightarrow> None)"

definition z_status :: "json \<Rightarrow> TodoStatus option" where
  "z_status v =
     (case v of
        JStr s \<Rightarrow> if s = ''pending'' then Some Pending
                  else if s = ''done'' then Some Done else None
      | _ \<Rightarrow> None)"

definition z_optional :: "(json \<Rightarrow> 'a option) \<Rightarrow> json option \<Rightarrow> 'a option option" where
  "z_optional p v = (case v of None \<Rightarrow> Some None | Some j \<Rightarrow> map_option Some (p j))"

definition z_required :: "(json \<Rightarrow> 'a option) \<Rightarrow> json option \<Rightarrow> 'a option" where
  "z_required p v = (case v of None \<Rightarrow> None | Some j \<Rightarrow> p j)"

definition z_optional_nullable ::
  "(json \<Rightarrow> 'a option) \<Rightarrow> json option \<Rightarrow> 'a nullable option" where
  "z_optional_nullable p v =
     (case v of
        None \<Rightarrow> Some Undefined
      | Some JNull \<Rightarrow> Some Null
      | Some j \<Rightarrow> map_option Value (p j))"

text \<open>\<^verbatim>\<open>.default(d)\<close> around an optional schema: an absent value is replaced by \<open>d\<close>.\<close>

definition z_default :: "(json \<Rightarrow> 'a option) \<Rightarrow> 'a \<Rightarrow> json option \<Rightarrow> 'a option" where
  "z_default p d v = (case v of None \<Rightarrow> Some d | Some j \<Rightarrow> p j)"

text \<open>An issue is the path of the offending field; the empty path is the body itself.\<close>

type_synonym issue = string

definition issue_of :: "string \<Rightarrow> 'a option \<Rightarrow> issue list" where
  "issue_of path r = (case r of None \<Rightarrow> [path] | Some _ \<Rightarrow> [])"

record CreateInput =
  c_title :: string
  c_description :: "string option"
  c_dueDate :: "string option"
  c_priority :: "int option"

definition createTodoSchema :: "(string \<Rightarrow> bool) \<Rightarrow> json \<Rightarrow> issue list + CreateInput" where
  "createTodoSchema dt body =
     (case body of
        JObj props \<Rightarrow>
          (let t = z_required (z_string 1 200) (map_of props ''title'');
               d = z_optional (z_string 0 2000) (map_of props ''description'');
               u = z_optional (z_datetime dt) (map_of props ''dueDate'');
               p = z_optional z_priority (map_of props ''priority'')
           in case (t, d, u, p) of
                (Some t', Some d', Some u', Some p') \<Rightarrow>
                  Inr \<lparr>c_title = t', c_description = d', c_dueDate = u', c_priority = p'\<rparr>
              | _ \<Rightarrow>
                  Inl (issue_of ''title'' t @ issue_of ''description'' d
                       @ issue_of ''dueDate'' u @ issue_of ''priority'' p))
      | _ \<Rightarrow> Inl [''''])"

record UpdateInput =
  u_title :: "string option"
  u_description :: "string option"
  u_status :: "TodoStatus option"
  u_dueDate :: "string nullable"
  u_priority :: "int nullable"

definition updateTodoSchema :: "(string \<Rightarrow> bool) \<Rightarrow> json \<Rightarrow> issue list + UpdateInput" where
  "updateTodoSchema dt body =
     (case body of
        JObj props \<Rightarrow>
          (let t = z_optional (z_string 1 200) (map_of props ''title'');
               d = z_optional (z_string 0 2000) (map_of props ''description'');
               s = z_optional z_status (map_of props ''status'');
               u = z_optional_nullable (z_datetime dt) (map_of props ''dueDate'');
               p = z_optional_nullable z_priority (map_of props ''priority'')
           in case (t, d, s, u, p) of
                (Some t', Some d', Some s', Some u', Some p') \<Rightarrow>
                  Inr \<lparr>u_title = t', u_description = d', u_status = s',
                       u_dueDate = u', u_priority = p'\<rparr>
              | _ \<Rightarrow>
                  Inl (issue_of ''title'' t @ issue_of ''description'' d
                       @ issue_of ''status'' s @ issue_of ''dueDate'' u
                       @ issue_of ''priority'' p))
      | _ \<Rightarrow> Inl [''''])"

text \<open>
  The schema of the PUT handler,
  \<^verbatim>\<open>createTodoSchema.extend({status: updateTodoSchema.shape.status.default('pending')})\<close>.
\<close>

record ReplaceInput =
  r_title :: string
  r_description :: "string option"
  r_dueDate :: "string option"
  r_priority :: "int option"
  r_status :: TodoStatus

definition replaceTodoSchema :: "(string \<Rightarrow> bool) \<Rightarrow> json \<Rightarrow> issue list + ReplaceInput" where
  "replaceTodoSchema dt body =
     (case body of
        JObj props \<Rightarrow>
          (let t = z_required (z_string 1 200) (map_of props ''title'');
               d = z_optional (z_string 0 2000) (map_of props ''description'');
               u = z_optional (z_datetime dt) (map_of props ''dueDate'');
               p = z_optional z_priority (map_of props ''priority'');
               s = z_default z_status Pending (map_of props ''status'')
           in case (t, d, u, p, s) of
                (Some t', Some d', Some u', Some p', Some s') \<Rightarrow>
                  Inr \<lparr>r_title = t', r_description = d', r_dueDate = u',
                       r_priority = p', r_status = s'\<rparr>
              | _ \<Rightarrow>
                  Inl (issue_of ''title'' t @ issue_of ''description'' d
                       @ issue_of ''dueDate'' u @ issue_of ''priority'' p
                       @ issue_of ''status'' s))
      | _ \<Rightarrow> Inl [''''])"

section \<open>The store and its handlers\<close>

text \<open>
  The module-level array \<^verbatim>\<open>todos\<close> is the state, passed in and returned. Each handler
  takes what it reads from its environment as arguments: \<open>now\<close> is
  \<^verbatim>\<open>new Date().toISOString()\<close>, \<open>uuid\<close> the value of \<^verbatim>\<open>uuid()\<close>, \<open>dt\<close> zod's datetime
  test.
\<close>

record Envelope =
  data :: "Todo list"
  page :: int
  pageSize :: int
  total :: nat
  totalPages :: int

datatype response =
    Ok Todo
  | Created Todo
  | Listing Envelope
  | NotFound
  | ValidationError "issue list"

text \<open>\<^verbatim>\<open>todos.findIndex(t => t.id === id)\<close>, with \<open>None\<close> for \<open>-1\<close>.\<close>

fun findIndex :: "string \<Rightarrow> Todo list \<Rightarrow> nat option" where
  "findIndex i [] = None"
| "findIndex i (t # ts) =
     (if id t = i then Some 0 else map_option Suc (findIndex i ts))"

definition post_todos ::
  "(string \<Rightarrow> bool) \<Rightarrow> string \<Rightarrow> string \<Rightarrow> json \<Rightarrow> Todo list \<Rightarrow> response \<times> Todo list" where
  "post_todos dt now uuid body todos =
     (case createTodoSchema dt body of
        Inl issues \<Rightarrow> (ValidationError issues, todos)
      | Inr input \<Rightarrow>
          (let todo = \<lparr>id = uuid, title = c_title input,
                       description = c_description input, status = Pending,
                       createdAt = now, updatedAt = now,
                       dueDate = c_dueDate input, priority = c_priority input\<rparr>
           in (Created todo, todos @ [todo])))"

text \<open>
  The object literal of the PATCH handler, member by member: the spreads
  \<^verbatim>\<open>...current, ...patch\<close> give each of \<^verbatim>\<open>title\<close>, \<^verbatim>\<open>description\<close>, \<^verbatim>\<open>status\<close> the
  patch's value when the parsed patch has the key and the current one otherwise (zod
  strips every other key, so \<^verbatim>\<open>id\<close> and \<^verbatim>\<open>createdAt\<close> come from \<^verbatim>\<open>current\<close>); then
  \<^verbatim>\<open>dueDate\<close>, \<^verbatim>\<open>priority\<close> and \<^verbatim>\<open>updatedAt\<close> are written as the source writes them:
  \<^verbatim>\<open>dueDate: patch.dueDate === null ? undefined : patch.dueDate ?? current.dueDate\<close> and
  \<^verbatim>\<open>priority: patch.priority === null ? undefined : patch.priority\<close>, where an absent
  \<^verbatim>\<open>patch.priority\<close> is \<^verbatim>\<open>undefined\<close>.
\<close>

definition merge_patch :: "string \<Rightarrow> Todo \<Rightarrow> UpdateInput \<Rightarrow> Todo" where
  "merge_patch now current patch =
     \<lparr>id = id current,
      title = (case u_title patch of Some v \<Rightarrow> v | None \<Rightarrow> title current),
      description =
        (case u_description patch of Some v \<Rightarrow> Some v | None \<Rightarrow> description current),
      status = (case u_status patch of Some v \<Rightarrow> v | None \<Rightarrow> status current),
      createdAt = createdAt current,
      updatedAt = now,
      dueDate =
        (case u_dueDate patch of
           Null \<Rightarrow> None
         | Value v \<Rightarrow> Some v
         | Undefined \<Rightarrow> dueDate current),
      priority =
        (case u_priority patch of
           Null \<Rightarrow> None
         | Value v \<Rightarrow> Some v
         | Undefined \<Rightarrow> None)\<rparr>"

definition patch_todo ::
  "(string \<Rightarrow> bool) \<Rightarrow> string \<Rightarrow> string \<Rightarrow> json \<Rightarrow> Todo list \<Rightarrow> response \<times> Todo list" where
  "patch_todo dt now i body todos =
     (case findIndex i todos of
        None \<Rightarrow> (NotFound, todos)
      | Some idx \<Rightarrow>
          (case updateTodoSchema dt body of
             Inl issues \<Rightarrow> (ValidationError issues, todos)
           | Inr patch \<Rightarrow>
               (let updated = merge_patch now (todos ! idx) patch
                in (Ok updated, todos[idx := updated]))))"

text \<open>
  The operand \<^verbatim>\<open>{ ...req.body }\<close> of the PUT handler: the own enumerable properties of
  the body. An array spreads to its elements under the keys \<^verbatim>\<open>'0'\<close>, \<^verbatim>\<open>'1'\<close>, ..., a
  string to its characters likewise, any other primitive to nothing.
\<close>

fun decimal :: "nat \<Rightarrow> string" where
  "decimal n =
     (if n < 10 then [char_of (48 + n)]
      else decimal (n div 10) @ [char_of (48 + n mod 10)])"

definition index_props :: "json list \<Rightarrow> (string \<times> json) list" where
  "index_props xs = zip (map decimal [0..<length xs]) xs"

definition spread :: "json \<Rightarrow> (string \<times> json) list" where
  "spread body =
     (case body of
        JObj props \<Rightarrow> props
      | JArr xs \<Rightarrow> index_props xs
      | JStr s \<Rightarrow> index_props (map (\<lambda>c. JStr [c]) s)
      | _ \<Rightarrow> [])"

definition put_body :: "json \<Rightarrow> json" where
  "put_body req_body =
     (let body = spread req_body
      in if map_of body ''status'' = None
         then JObj (body @ [(''status'', JStr ''pending'')])
         else JObj body)"

definition put_todo ::
  "(string \<Rightarrow> bool) \<Rightarrow> string \<Rightarrow> string \<Rightarrow> json \<Rightarrow> Todo list \<Rightarrow> response \<times> Todo list" where
  "put_todo dt now i req_body todos =
     (case replaceTodoSchema dt (put_body req_body) of
        Inl issues \<Rightarrow> (ValidationError issues, todos)
      | Inr createChecked \<Rightarrow>
          (let idx = findIndex i todos;
               replacement =
                 \<lparr>id = (case idx of None \<Rightarrow> i | Some k \<Rightarrow> id (todos ! k)),
                  title = r_title createChecked,
                  description = r_description createChecked,
                  status = r_status createChecked,
                  createdAt = (case idx of None \<Rightarrow> now | Some k \<Rightarrow> createdAt (todos ! k)),
                  updatedAt = now,
                  dueDate = r_dueDate createChecked,
                  priority = r_priority createChecked\<rparr>
           in case idx of
                None \<Rightarrow> (Created replacement, todos @ [replacement])
              | Some k \<Rightarrow> (Ok replacement, todos[k := replacement])))"

text \<open>\<^verbatim>\<open>todos.splice(idx, 1)\<close> removes the element at \<open>idx\<close> and yields it.\<close>

definition splice1 :: "nat \<Rightarrow> 'a list \<Rightarrow> 'a \<times> 'a list" where
  "splice1 idx xs = (xs ! idx, take idx xs @ drop (Suc idx) xs)"

definition delete_todo :: "string \<Rightarrow> Todo list \<Rightarrow> response \<times> Todo list" where
  "delete_todo i todos =
     (case findIndex i todos of
        None \<Rightarrow> (NotFound, todos)
      | Some idx \<Rightarrow> (let (removed, rest) = splice1 idx todos in (Ok removed, rest)))"

text \<open>
  \<^verbatim>\<open>todos.find(t => t.id === id)\<close> yields the first matching object itself, and the
  two quick actions assign to its members: the array then holds the changed object at
  the same index.
\<close>

definition set_status ::
  "TodoStatus \<Rightarrow> string \<Rightarrow> string \<Rightarrow> Todo list \<Rightarrow> response \<times> Todo list" where
  "set_status s now i todos =
     (case findIndex i todos of
        None \<Rightarrow> (NotFound, todos)
      | Some idx \<Rightarrow>
          (let todo = (todos ! idx)\<lparr>status := s, updatedAt := now\<rparr>
           in (Ok todo, todos[idx := todo])))"

definition post_done :: "string \<Rightarrow> string \<Rightarrow> Todo list \<Rightarrow> response \<times> Todo list" where
  "post_done = set_status Done"

definition post_pending :: "string \<Rightarrow> string \<Rightarrow> Todo list \<Rightarrow> response \<times> Todo list" where
  "post_pending = set_status Pending"

definition get_todo :: "string \<Rightarrow> Todo list \<Rightarrow> response \<times> Todo list" where
  "get_todo i todos =
     (case findIndex i todos of
        None \<Rightarrow> (NotFound, todos)
      | Some idx \<Rightarrow> (Ok (todos ! idx), todos))"

section \<open>The list endpoint: filter, sort, paginate\<close>

text \<open>
  \<^verbatim>\<open>req.query\<close> as the list schema sees it. The numeric parameters are held as the
  integer \<^verbatim>\<open>z.coerce.number()\<close> turns the text into; a text that coerces to no integer
  is rejected by \<^verbatim>\<open>.int()\<close> as an integer out of range is by \<^verbatim>\<open>.min\<close>/\<^verbatim>\<open>.max\<close>.
\<close>

record RawQuery =
  raw_q :: "string option"
  raw_status :: "string option"
  raw_priority :: "int option"
  raw_sortBy :: "string option"
  raw_order :: "string option"
  raw_page :: "int option"
  raw_pageSize :: "int option"

datatype SortBy = SortCreatedAt | SortUpdatedAt | SortDueDate | SortPriority

datatype Order = Asc | Desc

record ListQuery =
  q_q :: "string option"
  q_status :: "TodoStatus option"
  q_priority :: "int option"
  q_sortBy :: "SortBy option"
  q_order :: "Order option"
  q_page :: "int option"
  q_pageSize :: "int option"

definition z_int_range :: "int \<Rightarrow> int option \<Rightarrow> int \<Rightarrow> int option" where
  "z_int_range lo hi n =
     (if lo \<le> n \<and> (case hi of None \<Rightarrow> True | Some h \<Rightarrow> n \<le> h) then Some n else None)"

definition z_sortBy :: "string \<Rightarrow> SortBy option" where
  "z_sortBy s =
     (if s = ''createdAt'' then Some SortCreatedAt
      else if s = ''updatedAt'' then Some SortUpdatedAt
      else if s = ''dueDate'' then Some SortDueDate
      else if s = ''priority'' then Some SortPriority
      else None)"

definition z_order :: "string \<Rightarrow> Order option" where
  "z_order s = (if s = ''asc'' then Some Asc else if s = ''desc'' then Some Desc else None)"

definition q_optional :: "('a \<Rightarrow> 'b option) \<Rightarrow> 'a option \<Rightarrow> 'b option option" where
  "q_optional p v = (case v of None \<Rightarrow> Some None | Some x \<Rightarrow> map_option Some (p x))"

definition listQuerySchema :: "RawQuery \<Rightarrow> issue list + ListQuery" where
  "listQuerySchema rq =
     (let s = q_optional (\<lambda>x. z_status (JStr x)) (raw_status rq);
          p = q_optional (z_int_range 1 (Some 3)) (raw_priority rq);
          b = q_optional z_sortBy (raw_sortBy rq);
          r = q_optional z_order (raw_order rq);
          g = q_optional (z_int_range 1 None) (raw_page rq);
          z = q_optional (z_int_range 1 (Some 100)) (raw_pageSize rq)
      in case (s, p, b, r, g, z) of
           (Some s', Some p', Some b', Some r', Some g', Some z') \<Rightarrow>
             Inr \<lparr>q_q = raw_q rq, q_status = s', q_priority = p', q_sortBy = b',
                  q_order = r', q_page = g', q_pageSize = z'\<rparr>
         | _ \<Rightarrow>
             Inl (issue_of ''status'' s @ issue_of ''priority'' p @ issue_of ''sortBy'' b
                  @ issue_of ''order'' r @ issue_of ''page'' g @ issue_of ''pageSize'' z))"

subsection \<open>Text filter\<close>

text \<open>
  \<^verbatim>\<open>String.prototype.toLowerCase\<close> and \<^verbatim>\<open>String.prototype.includes\<close>. A \<open>char\<close> stands
  for a code unit below 256, that is a character of Latin-1. Among these the upper-case
  letters are \<open>A\<close> to \<open>Z\<close> (65 to 90) and the accented capitals 192 to 222 without the
  multiplication sign 215; JavaScript maps each to the code unit 32 above it and leaves
  every other code unit below 256 as it is.
\<close>

definition lower_char :: "char \<Rightarrow> char" where
  "lower_char c =
     (let n = (of_char c :: nat)
      in if (65 \<le> n \<and> n \<le> 90) \<or> (192 \<le> n \<and> n \<le> 222 \<and> n \<noteq> 215)
         then char_of (n + 32) else c)"

definition toLowerCase :: "string \<Rightarrow> string" where
  "toLowerCase s = map lower_char s"

fun str_includes :: "string \<Rightarrow> string \<Rightarrow> bool" where
  "str_includes [] needle = (needle = [])"
| "str_includes (c # cs) needle = (prefix needle (c # cs) \<or> str_includes cs needle)"

definition matches_q :: "string \<Rightarrow> Todo \<Rightarrow> bool" where
  "matches_q q t =
     (let needle = toLowerCase q
      in str_includes (toLowerCase (title t)) needle
         \<or> str_includes (toLowerCase (case description t of None \<Rightarrow> [] | Some d \<Rightarrow> d)) needle)"

text \<open>
  The three guarded filters. \<^verbatim>\<open>if (q)\<close> skips the empty string as well as an absent
  \<^verbatim>\<open>q\<close>; \<^verbatim>\<open>if (priority)\<close> would skip \<open>0\<close>.
\<close>

definition filter_q :: "string option \<Rightarrow> Todo list \<Rightarrow> Todo list" where
  "filter_q q result =
     (case q of
        None \<Rightarrow> result
      | Some s \<Rightarrow> if s = [] then result else filter (matches_q s) result)"

definition filter_status :: "TodoStatus option \<Rightarrow> Todo list \<Rightarrow> Todo list" where
  "filter_status st result =
     (case st of None \<Rightarrow> result | Some s \<Rightarrow> filter (\<lambda>t. status t = s) result)"

definition filter_priority :: "int option \<Rightarrow> Todo list \<Rightarrow> Todo list" where
  "filter_priority pr result =
     (case pr of
        None \<Rightarrow> result
      | Some p \<Rightarrow> if p = 0 then result else filter (\<lambda>t. priority t = Some p) result)"

definition filtered :: "ListQuery \<Rightarrow> Todo list \<Rightarrow> Todo list" where
  "filtered parsed todos =
     filter_priority (q_priority parsed)
       (filter_status (q_status parsed) (filter_q (q_q parsed) todos))"

subsection \<open>Sort\<close>

text \<open>
  \<^verbatim>\<open>(a as any)[sortBy]\<close>: the member read by name, \<open>None\<close> when it is \<^verbatim>\<open>undefined\<close>.
\<close>

datatype jsval = Str string | Num int

definition field :: "SortBy \<Rightarrow> Todo \<Rightarrow> jsval option" where
  "field sortBy t =
     (case sortBy of
        SortCreatedAt \<Rightarrow> Some (Str (createdAt t))
      | SortUpdatedAt \<Rightarrow> Some (Str (updatedAt t))
      | SortDueDate \<Rightarrow> map_option Str (dueDate t)
      | SortPriority \<Rightarrow> map_option Num (priority t))"

text \<open>
  \<^verbatim>\<open>av - bv\<close> and \<^verbatim>\<open>av < bv\<close> on the two values of one member: two numbers for
  \<^verbatim>\<open>priority\<close>, two strings for the other three. The remaining equations are never
  reached from the comparator.
\<close>

fun js_minus :: "jsval \<Rightarrow> jsval \<Rightarrow> int" where
  "js_minus (Num a) (Num b) = a - b"
| "js_minus _ _ = 0"

fun js_less :: "jsval \<Rightarrow> jsval \<Rightarrow> bool" where
  "js_less (Str a) (Str b) = (a < b)"
| "js_less (Num a) (Num b) = (a < b)"
| "js_less _ _ = False"

definition comparator :: "SortBy \<Rightarrow> Order \<Rightarrow> Todo \<Rightarrow> Todo \<Rightarrow> int" where
  "comparator sortBy ord a b =
     (let dir = (if ord = Asc then 1 else - 1) in
      case (field sortBy a, field sortBy b) of
        (None, None) \<Rightarrow> 0
      | (None, Some bv) \<Rightarrow> 1
      | (Some av, None) \<Rightarrow> - 1
      | (Some av, Some bv) \<Rightarrow>
          if sortBy = SortPriority then js_minus av bv * dir
          else (if js_less av bv then - 1 else if js_less bv av then 1 else 0) * dir)"

text \<open>
  \<^verbatim>\<open>Array.prototype.sort\<close> is stable and, for a comparator that is a consistent
  ordering, returns the elements ordered by it. That result is unique; it is computed
  here by inserting each element before the first one it does not come after.
\<close>

fun insert_by :: "('a \<Rightarrow> 'a \<Rightarrow> int) \<Rightarrow> 'a \<Rightarrow> 'a list \<Rightarrow> 'a list" where
  "insert_by cmp x [] = [x]"
| "insert_by cmp x (y # ys) =
     (if cmp x y \<le> 0 then x # y # ys else y # insert_by cmp x ys)"

fun sort_by :: "('a \<Rightarrow> 'a \<Rightarrow> int) \<Rightarrow> 'a list \<Rightarrow> 'a list" where
  "sort_by cmp [] = []"
| "sort_by cmp (x # xs) = insert_by cmp x (sort_by cmp xs)"

subsection \<open>Paginate\<close>

text \<open>\<^verbatim>\<open>Array.prototype.slice(start, end)\<close> on integer arguments.\<close>

definition slice :: "'a list \<Rightarrow> int \<Rightarrow> int \<Rightarrow> 'a list" where
  "slice xs start end' =
     (let len = int (length xs);
          k = (if start < 0 then max (len + start) 0 else min start len);
          final = (if end' < 0 then max (len + end') 0 else min end' len)
      in take (nat (final - k)) (drop (nat k) xs))"

definition sorted_result :: "ListQuery \<Rightarrow> Todo list \<Rightarrow> Todo list" where
  "sorted_result parsed todos =
     (let sortBy = (case q_sortBy parsed of None \<Rightarrow> SortCreatedAt | Some s \<Rightarrow> s);
          ord = (case q_order parsed of None \<Rightarrow> Desc | Some r \<Rightarrow> r)
      in sort_by (comparator sortBy ord) (filtered parsed todos))"

text \<open>
  The body of the handler after parsing, with the defaults of the destructuring
  (\<^verbatim>\<open>sortBy = 'createdAt'\<close>, \<^verbatim>\<open>order = 'desc'\<close>, \<^verbatim>\<open>page = 1\<close>, \<^verbatim>\<open>pageSize = 20\<close>).
  \<^verbatim>\<open>Math.ceil(total / pageSize)\<close> is taken over the reals: the schema lets through only
  page sizes from 1 to 100, and on a length and such a divisor the floating-point
  quotient rounds up to the same integer.
\<close>

definition query :: "ListQuery \<Rightarrow> Todo list \<Rightarrow> Envelope" where
  "query parsed todos =
     (let pg = (case q_page parsed of None \<Rightarrow> 1 | Some n \<Rightarrow> n);
          sz = (case q_pageSize parsed of None \<Rightarrow> 20 | Some n \<Rightarrow> n);
          result = sorted_result parsed todos;
          tot = length result;
          start = (pg - 1) * sz
      in \<lparr>data = slice result start (start + sz), page = pg, pageSize = sz, total = tot,
          totalPages = \<lceil>real tot / real_of_int sz\<rceil>\<rparr>)"

definition get_todos :: "RawQuery \<Rightarrow> Todo list \<Rightarrow> response \<times> Todo list" where
  "get_todos rq todos =
     (case listQuerySchema rq of
        Inl issues \<Rightarrow> (ValidationError issues, todos)
      | Inr parsed \<Rightarrow> (Listing (query parsed todos), todos))"

section \<open>The server as a whole\<close>

datatype request =
    GetTodos RawQuery
  | PostTodos json
  | GetTodo string
  | PatchTodo string json
  | PutTodo string json
  | DeleteTodo string
  | PostDone string
  | PostPending string

fun handle ::
  "(string \<Rightarrow> bool) \<Rightarrow> string \<Rightarrow> string \<Rightarrow> request \<Rightarrow> Todo list \<Rightarrow> response \<times> Todo list" where
  "handle dt now uuid (GetTodos rq) todos = get_todos rq todos"
| "handle dt now uuid (PostTodos body) todos = post_todos dt now uuid body todos"
| "handle dt now uuid (GetTodo i) todos = get_todo i todos"
| "handle dt now uuid (PatchTodo i body) todos = patch_todo dt now i body todos"
| "handle dt now uuid (PutTodo i body) todos = put_todo dt now i body todos"
| "handle dt now uuid (DeleteTodo i) todos = delete_todo i todos"
| "handle dt now uuid (PostDone i) todos = post_done now i todos"
| "handle dt now uuid (PostPending i) todos = post_pending now i todos"

text \<open>
  A run of the server: the requests in the order they are served, each with the time
  and the identifier its handler would draw. The array is empty when the process starts.
\<close>

fun run ::
  "(string \<Rightarrow> bool) \<Rightarrow> (string \<times> string \<times> request) list \<Rightarrow> Todo list \<Rightarrow> Todo list" where
  "run dt [] todos = todos"
| "run dt ((now, uuid, r) # es) todos = run dt es (snd (handle dt now uuid r todos))"

text \<open>The invariant of the timestamps, relative to the last reading \<open>c\<close> of the clock.\<close>

definition stamps_ok :: "string \<Rightarrow> Todo list \<Rightarrow> bool" where
  "stamps_ok c todos = list_all (\<lambda>t. createdAt t \<le> updatedAt t \<and> updatedAt t \<le> c) todos"

section \<open>The ordering the list endpoint promises\<close>

text \<open>
  The order of two values of the sort member as the specification words it: a record
  without the member comes after every record that has it, whatever the direction;
  two present values are ascending for \<open>Asc\<close> and descending for \<open>Desc\<close>.
\<close>

fun nulls_last :: "Order \<Rightarrow> 'a::linorder option \<Rightarrow> 'a option \<Rightarrow> bool" where
  "nulls_last ord _ None = True"
| "nulls_last ord None (Some y) = False"
| "nulls_last Asc (Some x) (Some y) = (x \<le> y)"
| "nulls_last Desc (Some x) (Some y) = (y \<le> x)"

definition in_order :: "SortBy \<Rightarrow> Order \<Rightarrow> Todo \<Rightarrow> Todo \<Rightarrow> bool" where
  "in_order sortBy ord a b =
     (case sortBy of
        SortCreatedAt \<Rightarrow> nulls_last ord (Some (createdAt a)) (Some (createdAt b))
      | SortUpdatedAt \<Rightarrow> nulls_last ord (Some (updatedAt a)) (Some (updatedAt b))
      | SortDueDate \<Rightarrow> nulls_last ord (dueDate a) (dueDate b)
      | SortPriority \<Rightarrow> nulls_last ord (priority a) (priority b))"

section \<open>The list handler on an explicit heap\<close>

text \<open>
  The handler of \<^verbatim>\<open>GET /todos\<close> once more, with the sharing JavaScript has: an array
  holds references to objects, \<^verbatim>\<open>[...todos]\<close>, \<^verbatim>\<open>filter\<close> and \<^verbatim>\<open>slice\<close> allocate a new
  array of the same references, and \<^verbatim>\<open>sort\<close> reorders the array it is called on in
  place. \<open>objs\<close> is the store of the \<^verbatim>\<open>Todo\<close> objects and \<open>arrs\<close> that of the arrays, both
  addressed by position.
\<close>

record heap =
  objs :: "Todo list"
  arrs :: "nat list list"

text \<open>
  Each operation takes and returns the heap; those that yield an array return its
  address with it, as the pair the variable \<^verbatim>\<open>result\<close> and the heap form.
\<close>

definition new_array :: "nat list \<Rightarrow> heap \<Rightarrow> nat \<times> heap" where
  "new_array refs h = (length (arrs h), h\<lparr>arrs := arrs h @ [refs]\<rparr>)"

definition array_filter :: "(Todo \<Rightarrow> bool) \<Rightarrow> nat \<times> heap \<Rightarrow> nat \<times> heap" where
  "array_filter P s =
     (let a = fst s; h = snd s
      in new_array (filter (\<lambda>r. P (objs h ! r)) (arrs h ! a)) h)"

definition array_sort :: "(Todo \<Rightarrow> Todo \<Rightarrow> int) \<Rightarrow> nat \<times> heap \<Rightarrow> nat \<times> heap" where
  "array_sort cmp s =
     (let a = fst s; h = snd s
      in (a, h\<lparr>arrs := (arrs h)
                 [a := sort_by (\<lambda>x y. cmp (objs h ! x) (objs h ! y)) (arrs h ! a)]\<rparr>))"

definition array_slice :: "int \<Rightarrow> int \<Rightarrow> nat \<times> heap \<Rightarrow> nat \<times> heap" where
  "array_slice start end' s =
     (let a = fst s; h = snd s in new_array (slice (arrs h ! a) start end') h)"

definition get_todos_heap :: "ListQuery \<Rightarrow> nat \<Rightarrow> heap \<Rightarrow> Envelope \<times> heap" where
  "get_todos_heap parsed todos h =
     (let sortBy = (case q_sortBy parsed of None \<Rightarrow> SortCreatedAt | Some s \<Rightarrow> s);
          ord = (case q_order parsed of None \<Rightarrow> Desc | Some r \<Rightarrow> r);
          pg = (case q_page parsed of None \<Rightarrow> 1 | Some n \<Rightarrow> n);
          sz = (case q_pageSize parsed of None \<Rightarrow> 20 | Some n \<Rightarrow> n);
          s0 = new_array (arrs h ! todos) h;
          s1 = (case q_q parsed of
                  None \<Rightarrow> s0
                | Some s \<Rightarrow> if s = [] then s0 else array_filter (matches_q s) s0);
          s2 = (case q_status parsed of
                  None \<Rightarrow> s1
                | Some s \<Rightarrow> array_filter (\<lambda>t. status t = s) s1);
          s3 = (case q_priority parsed of
                  None \<Rightarrow> s2
                | Some p \<Rightarrow> if p = 0 then s2
                            else array_filter (\<lambda>t. priority t = Some p) s2);
          s4 = array_sort (comparator sortBy ord) s3;
          tot = length (arrs (snd s4) ! fst s4);
          start = (pg - 1) * sz;
          s5 = array_slice start (start + sz) s4
      in (\<lparr>data = map (\<lambda>r. objs (snd s5) ! r) (arrs (snd s5) ! fst s5),
           page = pg, pageSize = sz, total = tot,
           totalPages = \<lceil>real tot / real_of_int sz\<rceil>\<rparr>,
          snd s5))"

text \<open>
  What the proof below keeps track of after each step that started from the heap \<open>h\<close>:
  the objects and the arrays of \<open>h\<close> are untouched, and \<^verbatim>\<open>result\<close> is an array allocated
  since, whose references stand for the records \<open>xs\<close>.
\<close>

definition result_is :: "heap \<Rightarrow> Todo list \<Rightarrow> nat \<times> heap \<Rightarrow> bool" where
  "result_is h xs s =
     (objs (snd s) = objs h
      \<and> take (length (arrs h)) (arrs (snd s)) = arrs h
      \<and> length (arrs h) \<le> fst s \<and> fst s < length (arrs (snd s))
      \<and> map (\<lambda>r. objs h ! r) (arrs (snd s) ! fst s) = xs)"

section \<open>Looking a record up by its id\<close>

lemma findIndex_None_iff: "findIndex i ts = None \<longleftrightarrow> i \<notin> id ` set ts"
  by (induction ts) auto

lemma findIndex_Some:
  "findIndex i ts = Some k \<Longrightarrow> k < length ts \<and> id (ts ! k) = i \<and> (\<forall>j<k. id (ts ! j) \<noteq> i)"
proof (induction ts arbitrary: k)
  case Nil
  then show ?case by simp
next
  case (Cons t ts)
  show ?case
  proof (cases "id t = i")
    case True
    with Cons.prems show ?thesis by simp
  next
    case False
    with Cons.prems obtain k' where k': "findIndex i ts = Some k'" "k = Suc k'"
      by auto
    from Cons.IH [OF k'(1)] False k'(2) show ?thesis
      by (auto simp: less_Suc_eq_0_disj)
  qed
qed

lemma findIndex_present: "i \<in> id ` set ts \<Longrightarrow> \<exists>k. findIndex i ts = Some k"
  using findIndex_None_iff [of i ts] by (cases "findIndex i ts") auto

section \<open>Partial update\<close>

text \<open>
  What the merge does member by member, for any current record and parsed patch: a
  present \<^verbatim>\<open>title\<close>, \<^verbatim>\<open>description\<close>, \<^verbatim>\<open>status\<close>, \<^verbatim>\<open>dueDate\<close> or \<^verbatim>\<open>priority\<close> is taken
  from the patch, \<^verbatim>\<open>null\<close> clears \<^verbatim>\<open>dueDate\<close> and \<^verbatim>\<open>priority\<close>, and an absent \<^verbatim>\<open>title\<close>,
  \<^verbatim>\<open>description\<close>, \<^verbatim>\<open>status\<close> or \<^verbatim>\<open>dueDate\<close> keeps the current value.
\<close>

lemma merge_patch_present:
  "u_title p = Some a \<Longrightarrow> title (merge_patch now cur p) = a"
  "u_description p = Some b \<Longrightarrow> description (merge_patch now cur p) = Some b"
  "u_status p = Some s \<Longrightarrow> status (merge_patch now cur p) = s"
  "u_dueDate p = Value d \<Longrightarrow> dueDate (merge_patch now cur p) = Some d"
  "u_priority p = Value n \<Longrightarrow> priority (merge_patch now cur p) = Some n"
  by (simp_all add: merge_patch_def)

lemma merge_patch_null:
  "u_dueDate p = Null \<Longrightarrow> dueDate (merge_patch now cur p) = None"
  "u_priority p = Null \<Longrightarrow> priority (merge_patch now cur p) = None"
  by (simp_all add: merge_patch_def)

lemma merge_patch_absent:
  "u_title p = None \<Longrightarrow> title (merge_patch now cur p) = title cur"
  "u_description p = None \<Longrightarrow> description (merge_patch now cur p) = description cur"
  "u_status p = None \<Longrightarrow> status (merge_patch now cur p) = status cur"
  "u_dueDate p = Undefined \<Longrightarrow> dueDate (merge_patch now cur p) = dueDate cur"
  by (simp_all add: merge_patch_def)

text \<open>
  C1. The claim is that a member absent from the patch keeps its current value, and in
  particular that a patch without \<^verbatim>\<open>priority\<close> leaves the priority as it is. The handler
  writes \<^verbatim>\<open>priority: patch.priority === null ? undefined : patch.priority\<close>, without the
  \<^verbatim>\<open>?? current.priority\<close> that the line for \<^verbatim>\<open>dueDate\<close> above it has: on a record of
  priority 2, the patch \<^verbatim>\<open>{"title": "x"}\<close> yields a record with no priority, while
  the due date is kept.
\<close>

theorem patch_omitting_priority_drops_it:
  "patch_todo top ''2024-01-02T00:00:00.000Z'' ''a'' (JObj [(''title'', JStr ''x'')])
     [\<lparr>id = ''a'', title = ''Buy milk'', description = None, status = Pending,
       createdAt = ''2024-01-01T00:00:00.000Z'', updatedAt = ''2024-01-01T00:00:00.000Z'',
       dueDate = Some ''2024-02-01T00:00:00.000Z'', priority = Some 2\<rparr>]
   = (Ok \<lparr>id = ''a'', title = ''x'', description = None, status = Pending,
          createdAt = ''2024-01-01T00:00:00.000Z'', updatedAt = ''2024-01-02T00:00:00.000Z'',
          dueDate = Some ''2024-02-01T00:00:00.000Z'', priority = None\<rparr>,
      [\<lparr>id = ''a'', title = ''x'', description = None, status = Pending,
        createdAt = ''2024-01-01T00:00:00.000Z'', updatedAt = ''2024-01-02T00:00:00.000Z'',
        dueDate = Some ''2024-02-01T00:00:00.000Z'', priority = None\<rparr>])"
  by (simp add: patch_todo_def updateTodoSchema_def z_optional_def z_optional_nullable_def
      z_string_def merge_patch_def Let_def)

text \<open>
  C6. For a record found under the id and a body the update schema accepts, the PATCH
  handler answers with the merged record and stores it in the place of the old one; the
  merged record has the id and the \<^verbatim>\<open>createdAt\<close> of the old one, its \<^verbatim>\<open>updatedAt\<close> is the
  current time, and so it is not below the old \<^verbatim>\<open>updatedAt\<close> when the clock has not
  gone back since.
\<close>

theorem patch_keeps_id_and_createdAt:
  assumes "findIndex i todos = Some idx"
    and "updateTodoSchema dt body = Inr patch"
    and "updatedAt (todos ! idx) \<le> now"
  shows "patch_todo dt now i body todos =
           (Ok (merge_patch now (todos ! idx) patch),
            todos[idx := merge_patch now (todos ! idx) patch])
         \<and> id (merge_patch now (todos ! idx) patch) = id (todos ! idx)
         \<and> createdAt (merge_patch now (todos ! idx) patch) = createdAt (todos ! idx)
         \<and> updatedAt (merge_patch now (todos ! idx) patch) = now
         \<and> updatedAt (todos ! idx) \<le> updatedAt (merge_patch now (todos ! idx) patch)"
  using assms by (simp add: patch_todo_def merge_patch_def Let_def)

theorem patch_keeps_id_and_createdAt_witness:
  "findIndex ''a''
     [\<lparr>id = ''a'', title = ''Buy milk'', description = None, status = Pending,
       createdAt = ''2024-01-01T00:00:00.000Z'', updatedAt = ''2024-01-01T00:00:00.000Z'',
       dueDate = None, priority = Some 2\<rparr>] = Some 0
   \<and> updateTodoSchema top (JObj [(''status'', JStr ''done'')])
       = Inr \<lparr>u_title = None, u_description = None, u_status = Some Done,
              u_dueDate = Undefined, u_priority = Undefined\<rparr>
   \<and> ''2024-01-01T00:00:00.000Z'' \<le> ''2024-01-02T00:00:00.000Z''
   \<and> snd (patch_todo top ''2024-01-02T00:00:00.000Z'' ''a''
            (JObj [(''status'', JStr ''done'')])
            [\<lparr>id = ''a'', title = ''Buy milk'', description = None, status = Pending,
              createdAt = ''2024-01-01T00:00:00.000Z'',
              updatedAt = ''2024-01-01T00:00:00.000Z'',
              dueDate = None, priority = Some 2\<rparr>])
       = [\<lparr>id = ''a'', title = ''Buy milk'', description = None, status = Done,
           createdAt = ''2024-01-01T00:00:00.000Z'',
           updatedAt = ''2024-01-02T00:00:00.000Z'',
           dueDate = None, priority = None\<rparr>]"
proof -
  let ?t = "\<lparr>id = ''a'', title = ''Buy milk'', description = None, status = Pending,
       createdAt = ''2024-01-01T00:00:00.000Z'', updatedAt = ''2024-01-01T00:00:00.000Z'',
       dueDate = None, priority = Some (2::int)\<rparr>"
  let ?p = "\<lparr>u_title = None, u_description = None, u_status = Some Done,
              u_dueDate = Undefined, u_priority = Undefined\<rparr>"
  have h1: "findIndex ''a'' [?t] = Some 0" by simp
  have h2: "updateTodoSchema top (JObj [(''status'', JStr ''done'')]) = Inr ?p"
    by (simp add: updateTodoSchema_def z_optional_def z_optional_nullable_def z_status_def)
  have h3: "updatedAt ([?t] ! 0) \<le> ''2024-01-02T00:00:00.000Z''" by simp
  from patch_keeps_id_and_createdAt [OF h1 h2 h3] h1 h2 show ?thesis
    by (simp add: merge_patch_def)
qed

text \<open>
  C9. An id that no record of the array has makes the PATCH handler answer not found,
  whatever the body is: the index is looked up before the body is parsed. The array is
  returned as it was.
\<close>

theorem patch_unknown_id_not_found:
  "i \<notin> id ` set todos \<Longrightarrow> patch_todo dt now i body todos = (NotFound, todos)"
  by (simp add: patch_todo_def findIndex_None_iff [symmetric])

theorem patch_unknown_id_not_found_witness:
  "''b'' \<notin> id ` set
     [\<lparr>id = ''a'', title = ''Buy milk'', description = None, status = Pending,
       createdAt = ''2024-01-01T00:00:00.000Z'', updatedAt = ''2024-01-01T00:00:00.000Z'',
       dueDate = None, priority = None\<rparr>]
   \<and> updateTodoSchema top (JObj [(''title'', JNum 5)]) = Inl [''title'']
   \<and> patch_todo top ''2024-01-02T00:00:00.000Z'' ''b'' (JObj [(''title'', JNum 5)])
       [\<lparr>id = ''a'', title = ''Buy milk'', description = None, status = Pending,
         createdAt = ''2024-01-01T00:00:00.000Z'', updatedAt = ''2024-01-01T00:00:00.000Z'',
         dueDate = None, priority = None\<rparr>]
     = (NotFound,
        [\<lparr>id = ''a'', title = ''Buy milk'', description = None, status = Pending,
          createdAt = ''2024-01-01T00:00:00.000Z'', updatedAt = ''2024-01-01T00:00:00.000Z'',
          dueDate = None, priority = None\<rparr>])"
proof -
  let ?t = "\<lparr>id = ''a'', title = ''Buy milk'', description = None, status = Pending,
       createdAt = ''2024-01-01T00:00:00.000Z'', updatedAt = ''2024-01-01T00:00:00.000Z'',
       dueDate = None, priority = None :: int option\<rparr>"
  have h: "''b'' \<notin> id ` set [?t]" by simp
  have v: "updateTodoSchema top (JObj [(''title'', JNum 5)]) = Inl [''title'']"
    by (simp add: updateTodoSchema_def z_optional_def z_optional_nullable_def z_string_def
        issue_of_def)
  from patch_unknown_id_not_found [OF h] h v show ?thesis by simp
qed

section \<open>Replace\<close>

text \<open>
  C4. For a body the PUT schema accepts: when no record has the id, the handler appends
  a record with the supplied id and both timestamps equal to the current time, and
  answers 201; when a record has it, the handler puts in its place a record with the
  same id and \<^verbatim>\<open>createdAt\<close>, every other member taken from the body and \<^verbatim>\<open>updatedAt\<close>
  the current time, and answers 200.
\<close>

theorem put_creates_or_overwrites:
  assumes "replaceTodoSchema dt (put_body body) = Inr c"
  shows "(i \<notin> id ` set todos \<longrightarrow>
            put_todo dt now i body todos =
              (Created \<lparr>id = i, title = r_title c, description = r_description c,
                        status = r_status c, createdAt = now, updatedAt = now,
                        dueDate = r_dueDate c, priority = r_priority c\<rparr>,
               todos @ [\<lparr>id = i, title = r_title c, description = r_description c,
                         status = r_status c, createdAt = now, updatedAt = now,
                         dueDate = r_dueDate c, priority = r_priority c\<rparr>]))
         \<and> (i \<in> id ` set todos \<longrightarrow>
            (\<exists>idx<length todos. id (todos ! idx) = i \<and> (\<forall>j<idx. id (todos ! j) \<noteq> i) \<and>
               put_todo dt now i body todos =
                 (Ok \<lparr>id = i, title = r_title c, description = r_description c,
                      status = r_status c, createdAt = createdAt (todos ! idx),
                      updatedAt = now, dueDate = r_dueDate c, priority = r_priority c\<rparr>,
                  todos[idx := \<lparr>id = i, title = r_title c, description = r_description c,
                      status = r_status c, createdAt = createdAt (todos ! idx),
                      updatedAt = now, dueDate = r_dueDate c, priority = r_priority c\<rparr>])))"
proof (intro conjI impI)
  assume "i \<notin> id ` set todos"
  then have "findIndex i todos = None" by (simp add: findIndex_None_iff)
  with assms show "put_todo dt now i body todos =
      (Created \<lparr>id = i, title = r_title c, description = r_description c,
                status = r_status c, createdAt = now, updatedAt = now,
                dueDate = r_dueDate c, priority = r_priority c\<rparr>,
       todos @ [\<lparr>id = i, title = r_title c, description = r_description c,
                 status = r_status c, createdAt = now, updatedAt = now,
                 dueDate = r_dueDate c, priority = r_priority c\<rparr>])"
    by (simp add: put_todo_def Let_def)
next
  assume "i \<in> id ` set todos"
  then obtain idx where idx: "findIndex i todos = Some idx"
    using findIndex_present by blast
  from findIndex_Some [OF idx]
  have bound: "idx < length todos" and same: "id (todos ! idx) = i"
    and first: "\<forall>j<idx. id (todos ! j) \<noteq> i"
    by auto
  from assms idx same
  have "put_todo dt now i body todos =
      (Ok \<lparr>id = i, title = r_title c, description = r_description c,
           status = r_status c, createdAt = createdAt (todos ! idx),
           updatedAt = now, dueDate = r_dueDate c, priority = r_priority c\<rparr>,
       todos[idx := \<lparr>id = i, title = r_title c, description = r_description c,
           status = r_status c, createdAt = createdAt (todos ! idx),
           updatedAt = now, dueDate = r_dueDate c, priority = r_priority c\<rparr>])"
    by (simp add: put_todo_def Let_def)
  with bound same first
  show "\<exists>idx<length todos. id (todos ! idx) = i \<and> (\<forall>j<idx. id (todos ! j) \<noteq> i) \<and>
      put_todo dt now i body todos =
        (Ok \<lparr>id = i, title = r_title c, description = r_description c,
             status = r_status c, createdAt = createdAt (todos ! idx),
             updatedAt = now, dueDate = r_dueDate c, priority = r_priority c\<rparr>,
         todos[idx := \<lparr>id = i, title = r_title c, description = r_description c,
             status = r_status c, createdAt = createdAt (todos ! idx),
             updatedAt = now, dueDate = r_dueDate c, priority = r_priority c\<rparr>])"
    by blast
qed

text \<open>
  The scenario of the specification: a PUT on an unknown id, then a second PUT on the
  same id with another title, one day later.
\<close>

theorem put_creates_or_overwrites_witness:
  "replaceTodoSchema top (put_body (JObj [(''title'', JStr ''Pay rent'')]))
     = Inr \<lparr>r_title = ''Pay rent'', r_description = None, r_dueDate = None,
            r_priority = None, r_status = Pending\<rparr>
   \<and> ''k1'' \<notin> id ` set []
   \<and> put_todo top ''2024-01-01T00:00:00.000Z'' ''k1'' (JObj [(''title'', JStr ''Pay rent'')]) []
     = (Created \<lparr>id = ''k1'', title = ''Pay rent'', description = None, status = Pending,
                 createdAt = ''2024-01-01T00:00:00.000Z'',
                 updatedAt = ''2024-01-01T00:00:00.000Z'', dueDate = None, priority = None\<rparr>,
        [\<lparr>id = ''k1'', title = ''Pay rent'', description = None, status = Pending,
          createdAt = ''2024-01-01T00:00:00.000Z'',
          updatedAt = ''2024-01-01T00:00:00.000Z'', dueDate = None, priority = None\<rparr>])
   \<and> replaceTodoSchema top (put_body (JObj [(''title'', JStr ''Pay the rent'')]))
     = Inr \<lparr>r_title = ''Pay the rent'', r_description = None, r_dueDate = None,
            r_priority = None, r_status = Pending\<rparr>
   \<and> ''k1'' \<in> id ` set
        [\<lparr>id = ''k1'', title = ''Pay rent'', description = None, status = Pending,
          createdAt = ''2024-01-01T00:00:00.000Z'',
          updatedAt = ''2024-01-01T00:00:00.000Z'', dueDate = None, priority = None\<rparr>]
   \<and> put_todo top ''2024-01-02T00:00:00.000Z'' ''k1''
        (JObj [(''title'', JStr ''Pay the rent'')])
        [\<lparr>id = ''k1'', title = ''Pay rent'', description = None, status = Pending,
          createdAt = ''2024-01-01T00:00:00.000Z'',
          updatedAt = ''2024-01-01T00:00:00.000Z'', dueDate = None, priority = None\<rparr>]
     = (Ok \<lparr>id = ''k1'', title = ''Pay the rent'', description = None, status = Pending,
            createdAt = ''2024-01-01T00:00:00.000Z'',
            updatedAt = ''2024-01-02T00:00:00.000Z'', dueDate = None, priority = None\<rparr>,
        [\<lparr>id = ''k1'', title = ''Pay the rent'', description = None, status = Pending,
          createdAt = ''2024-01-01T00:00:00.000Z'',
          updatedAt = ''2024-01-02T00:00:00.000Z'', dueDate = None, priority = None\<rparr>])"
proof -
  let ?c1 = "\<lparr>r_title = ''Pay rent'', r_description = None, r_dueDate = None,
            r_priority = None, r_status = Pending\<rparr>"
  let ?c2 = "\<lparr>r_title = ''Pay the rent'', r_description = None, r_dueDate = None,
            r_priority = None, r_status = Pending\<rparr>"
  let ?t = "\<lparr>id = ''k1'', title = ''Pay rent'', description = None, status = Pending,
          createdAt = ''2024-01-01T00:00:00.000Z'',
          updatedAt = ''2024-01-01T00:00:00.000Z'', dueDate = None,
          priority = None :: int option\<rparr>"
  have v1: "replaceTodoSchema top (put_body (JObj [(''title'', JStr ''Pay rent'')])) = Inr ?c1"
    by (simp add: replaceTodoSchema_def put_body_def spread_def z_required_def z_optional_def
        z_default_def z_string_def z_status_def)
  have v2: "replaceTodoSchema top (put_body (JObj [(''title'', JStr ''Pay the rent'')]))
      = Inr ?c2"
    by (simp add: replaceTodoSchema_def put_body_def spread_def z_required_def z_optional_def
        z_default_def z_string_def z_status_def)
  have a: "''k1'' \<notin> id ` set []" by simp
  have b: "''k1'' \<in> id ` set [?t]" by simp
  from put_creates_or_overwrites [OF v1, of "''k1''" "[]" "''2024-01-01T00:00:00.000Z''"] a
  have first: "put_todo top ''2024-01-01T00:00:00.000Z'' ''k1''
      (JObj [(''title'', JStr ''Pay rent'')]) []
    = (Created ?t, [?t])"
    by simp
  from put_creates_or_overwrites [OF v2, of "''k1''" "[?t]" "''2024-01-02T00:00:00.000Z''"] b
  have second: "put_todo top ''2024-01-02T00:00:00.000Z'' ''k1''
      (JObj [(''title'', JStr ''Pay the rent'')]) [?t]
    = (Ok (?t\<lparr>title := ''Pay the rent'', updatedAt := ''2024-01-02T00:00:00.000Z''\<rparr>),
       [?t\<lparr>title := ''Pay the rent'', updatedAt := ''2024-01-02T00:00:00.000Z''\<rparr>])"
    by simp
  from v1 v2 a b first second show ?thesis by simp
qed

section \<open>Rejected requests\<close>

text \<open>
  C7, as the claim states it, asks every PATCH whose body fails validation to raise a
  validation error. The PATCH handler looks the id up first: on an id that no record
  has it answers not found and never parses the body. So the body \<^verbatim>\<open>{"title": 5}\<close>,
  which the update schema rejects, sent to an unknown id, is answered with not found.
\<close>

theorem patch_invalid_body_unknown_id_counterexample:
  "updateTodoSchema top (JObj [(''title'', JNum 5)]) = Inl [''title'']
   \<and> patch_todo top ''2024-01-02T00:00:00.000Z'' ''b'' (JObj [(''title'', JNum 5)]) []
     = (NotFound, [])"
  by (simp add: patch_todo_def updateTodoSchema_def z_optional_def z_optional_nullable_def
      z_string_def issue_of_def)

text \<open>
  C7, amended. A body that the create schema rejects makes POST answer with the
  validation error and leave the array as it was; so does a body the PUT schema rejects
  for PUT, and a body the update schema rejects for PATCH on an id that a record has.
  On an id that no record has, PATCH, the two status actions and DELETE answer not
  found and leave the array as it was.
\<close>

theorem rejected_requests_leave_todos_unchanged:
  "(createTodoSchema dt body = Inl e \<longrightarrow>
      post_todos dt now uuid body todos = (ValidationError e, todos))
   \<and> (replaceTodoSchema dt (put_body body) = Inl e \<longrightarrow>
      put_todo dt now i body todos = (ValidationError e, todos))
   \<and> (updateTodoSchema dt body = Inl e \<and> i \<in> id ` set todos \<longrightarrow>
      patch_todo dt now i body todos = (ValidationError e, todos))
   \<and> (i \<notin> id ` set todos \<longrightarrow>
      patch_todo dt now i body todos = (NotFound, todos)
      \<and> post_done now i todos = (NotFound, todos)
      \<and> post_pending now i todos = (NotFound, todos)
      \<and> delete_todo i todos = (NotFound, todos))"
proof (intro conjI impI)
  assume "createTodoSchema dt body = Inl e"
  then show "post_todos dt now uuid body todos = (ValidationError e, todos)"
    by (simp add: post_todos_def)
next
  assume "replaceTodoSchema dt (put_body body) = Inl e"
  then show "put_todo dt now i body todos = (ValidationError e, todos)"
    by (simp add: put_todo_def)
next
  assume "updateTodoSchema dt body = Inl e \<and> i \<in> id ` set todos"
  then obtain idx where "findIndex i todos = Some idx" "updateTodoSchema dt body = Inl e"
    using findIndex_present by blast
  then show "patch_todo dt now i body todos = (ValidationError e, todos)"
    by (simp add: patch_todo_def)
next
  assume "i \<notin> id ` set todos"
  then have none: "findIndex i todos = None" by (simp add: findIndex_None_iff)
  from none show "patch_todo dt now i body todos = (NotFound, todos)"
    by (simp add: patch_todo_def)
  from none show "post_done now i todos = (NotFound, todos)"
    by (simp add: post_done_def set_status_def)
  from none show "post_pending now i todos = (NotFound, todos)"
    by (simp add: post_pending_def set_status_def)
  from none show "delete_todo i todos = (NotFound, todos)"
    by (simp add: delete_todo_def)
qed

theorem rejected_requests_leave_todos_unchanged_witness:
  "createTodoSchema top (JObj [(''title'', JNum 5)]) = Inl [''title'']
   \<and> replaceTodoSchema top (put_body (JObj [(''title'', JNum 5)])) = Inl [''title'']
   \<and> updateTodoSchema top (JObj [(''title'', JNum 5)]) = Inl [''title'']
   \<and> ''a'' \<in> id ` set
        [\<lparr>id = ''a'', title = ''Buy milk'', description = None, status = Pending,
          createdAt = ''2024-01-01T00:00:00.000Z'',
          updatedAt = ''2024-01-01T00:00:00.000Z'', dueDate = None, priority = None\<rparr>]
   \<and> ''b'' \<notin> id ` set
        [\<lparr>id = ''a'', title = ''Buy milk'', description = None, status = Pending,
          createdAt = ''2024-01-01T00:00:00.000Z'',
          updatedAt = ''2024-01-01T00:00:00.000Z'', dueDate = None, priority = None\<rparr>]
   \<and> snd (post_todos top ''2024-01-02T00:00:00.000Z'' ''u'' (JObj [(''title'', JNum 5)])
        [\<lparr>id = ''a'', title = ''Buy milk'', description = None, status = Pending,
          createdAt = ''2024-01-01T00:00:00.000Z'',
          updatedAt = ''2024-01-01T00:00:00.000Z'', dueDate = None, priority = None\<rparr>])
     = [\<lparr>id = ''a'', title = ''Buy milk'', description = None, status = Pending,
         createdAt = ''2024-01-01T00:00:00.000Z'',
         updatedAt = ''2024-01-01T00:00:00.000Z'', dueDate = None, priority = None\<rparr>]
   \<and> put_todo top ''2024-01-02T00:00:00.000Z'' ''a'' (JObj [(''title'', JNum 5)])
        [\<lparr>id = ''a'', title = ''Buy milk'', description = None, status = Pending,
          createdAt = ''2024-01-01T00:00:00.000Z'',
          updatedAt = ''2024-01-01T00:00:00.000Z'', dueDate = None, priority = None\<rparr>]
     = (ValidationError [''title''],
        [\<lparr>id = ''a'', title = ''Buy milk'', description = None, status = Pending,
          createdAt = ''2024-01-01T00:00:00.000Z'',
          updatedAt = ''2024-01-01T00:00:00.000Z'', dueDate = None, priority = None\<rparr>])
   \<and> patch_todo top ''2024-01-02T00:00:00.000Z'' ''a'' (JObj [(''title'', JNum 5)])
        [\<lparr>id = ''a'', title = ''Buy milk'', description = None, status = Pending,
          createdAt = ''2024-01-01T00:00:00.000Z'',
          updatedAt = ''2024-01-01T00:00:00.000Z'', dueDate = None, priority = None\<rparr>]
     = (ValidationError [''title''],
        [\<lparr>id = ''a'', title = ''Buy milk'', description = None, status = Pending,
          createdAt = ''2024-01-01T00:00:00.000Z'',
          updatedAt = ''2024-01-01T00:00:00.000Z'', dueDate = None, priority = None\<rparr>])
   \<and> delete_todo ''b''
        [\<lparr>id = ''a'', title = ''Buy milk'', description = None, status = Pending,
          createdAt = ''2024-01-01T00:00:00.000Z'',
          updatedAt = ''2024-01-01T00:00:00.000Z'', dueDate = None, priority = None\<rparr>]
     = (NotFound,
        [\<lparr>id = ''a'', title = ''Buy milk'', description = None, status = Pending,
          createdAt = ''2024-01-01T00:00:00.000Z'',
          updatedAt = ''2024-01-01T00:00:00.000Z'', dueDate = None, priority = None\<rparr>])"
proof -
  let ?t = "\<lparr>id = ''a'', title = ''Buy milk'', description = None, status = Pending,
          createdAt = ''2024-01-01T00:00:00.000Z'',
          updatedAt = ''2024-01-01T00:00:00.000Z'', dueDate = None,
          priority = None :: int option\<rparr>"
  let ?b = "JObj [(''title'', JNum 5)]"
  have c: "createTodoSchema top ?b = Inl [''title'']"
    by (simp add: createTodoSchema_def z_required_def z_optional_def z_string_def issue_of_def)
  have r: "replaceTodoSchema top (put_body ?b) = Inl [''title'']"
    by (simp add: replaceTodoSchema_def put_body_def spread_def z_required_def z_optional_def
        z_default_def z_string_def z_status_def issue_of_def)
  have u: "updateTodoSchema top ?b = Inl [''title'']"
    by (simp add: updateTodoSchema_def z_optional_def z_optional_nullable_def z_string_def
        issue_of_def)
  have a: "''a'' \<in> id ` set [?t]" by simp
  have b: "''b'' \<notin> id ` set [?t]" by simp
  from rejected_requests_leave_todos_unchanged
    [of top ?b "[''title'']" "''2024-01-02T00:00:00.000Z''" "''u''" "[?t]" "''a''"] c r u a
  have present: "post_todos top ''2024-01-02T00:00:00.000Z'' ''u'' ?b [?t]
        = (ValidationError [''title''], [?t])"
      "put_todo top ''2024-01-02T00:00:00.000Z'' ''a'' ?b [?t]
        = (ValidationError [''title''], [?t])"
      "patch_todo top ''2024-01-02T00:00:00.000Z'' ''a'' ?b [?t]
        = (ValidationError [''title''], [?t])"
    by blast+
  from rejected_requests_leave_todos_unchanged
    [of top ?b "[''title'']" "''2024-01-02T00:00:00.000Z''" "''u''" "[?t]" "''b''"] b
  have absent: "delete_todo ''b'' [?t] = (NotFound, [?t])"
    by blast
  from c r u a b present absent show ?thesis by simp
qed

section \<open>Delete\<close>

lemma findIndex_split:
  assumes "findIndex i ts = Some k"
  shows "ts = take k ts @ (ts ! k) # drop (Suc k) ts \<and> i \<notin> id ` set (take k ts)"
proof -
  from findIndex_Some [OF assms]
  have k: "k < length ts" and first: "\<forall>j<k. id (ts ! j) \<noteq> i" by auto
  from k have "ts = take k ts @ (ts ! k) # drop (Suc k) ts"
    by (simp add: id_take_nth_drop)
  moreover have "i \<notin> id ` set (take k ts)"
  proof
    assume "i \<in> id ` set (take k ts)"
    then obtain j where "j < k" and "id (ts ! j) = i"
      by (auto simp: in_set_conv_nth)
    with first show False by blast
  qed
  ultimately show ?thesis by simp
qed

text \<open>
  C8. DELETE on an id that no record has answers not found and changes nothing. On an
  id that a record has, it removes the first record with that id, keeps all the others
  in their order, and answers with the removed record. When the ids of the array are
  pairwise different, as the data model requires, a second DELETE of the same id
  answers not found.
\<close>

theorem delete_removes_the_record:
  "(i \<notin> id ` set todos \<longrightarrow> delete_todo i todos = (NotFound, todos))
   \<and> (i \<in> id ` set todos \<longrightarrow>
        (\<exists>ys t zs. todos = ys @ t # zs \<and> id t = i \<and> i \<notin> id ` set ys
           \<and> delete_todo i todos = (Ok t, ys @ zs)))
   \<and> (distinct (map id todos) \<longrightarrow>
        delete_todo i (snd (delete_todo i todos)) = (NotFound, snd (delete_todo i todos)))"
proof (intro conjI impI)
  assume "i \<notin> id ` set todos"
  then show "delete_todo i todos = (NotFound, todos)"
    by (simp add: delete_todo_def findIndex_None_iff [symmetric])
next
  assume "i \<in> id ` set todos"
  then obtain k where k: "findIndex i todos = Some k"
    using findIndex_present by blast
  from findIndex_Some [OF k] have "id (todos ! k) = i" by simp
  moreover from k have "delete_todo i todos = (Ok (todos ! k), take k todos @ drop (Suc k) todos)"
    by (simp add: delete_todo_def splice1_def)
  ultimately show "\<exists>ys t zs. todos = ys @ t # zs \<and> id t = i \<and> i \<notin> id ` set ys
      \<and> delete_todo i todos = (Ok t, ys @ zs)"
    using findIndex_split [OF k] by blast
next
  assume d: "distinct (map id todos)"
  show "delete_todo i (snd (delete_todo i todos)) = (NotFound, snd (delete_todo i todos))"
  proof (cases "findIndex i todos")
    case None
    then show ?thesis by (simp add: delete_todo_def)
  next
    case (Some k)
    let ?ys = "take k todos" and ?zs = "drop (Suc k) todos"
    from findIndex_split [OF Some] have split: "todos = ?ys @ (todos ! k) # ?zs"
      and before: "i \<notin> id ` set ?ys" by auto
    from findIndex_Some [OF Some] have same: "id (todos ! k) = i" by simp
    from d split have "distinct (map id (?ys @ (todos ! k) # ?zs))" by simp
    with same have "i \<notin> id ` set ?zs" by auto
    with before have "findIndex i (?ys @ ?zs) = None"
      by (simp add: findIndex_None_iff image_Un)
    moreover from Some have "snd (delete_todo i todos) = ?ys @ ?zs"
      by (simp add: delete_todo_def splice1_def)
    ultimately show ?thesis by (simp add: delete_todo_def)
  qed
qed

theorem delete_removes_the_record_witness:
  "''c'' \<notin> id ` set
       [\<lparr>id = ''a'', title = ''Buy milk'', description = None, status = Pending,
         createdAt = ''2024-01-01T00:00:00.000Z'',
         updatedAt = ''2024-01-01T00:00:00.000Z'', dueDate = None, priority = None\<rparr>,
        \<lparr>id = ''b'', title = ''Pay rent'', description = None, status = Done,
         createdAt = ''2024-01-02T00:00:00.000Z'',
         updatedAt = ''2024-01-03T00:00:00.000Z'', dueDate = None, priority = Some 1\<rparr>]
   \<and> ''a'' \<in> id ` set
       [\<lparr>id = ''a'', title = ''Buy milk'', description = None, status = Pending,
         createdAt = ''2024-01-01T00:00:00.000Z'',
         updatedAt = ''2024-01-01T00:00:00.000Z'', dueDate = None, priority = None\<rparr>,
        \<lparr>id = ''b'', title = ''Pay rent'', description = None, status = Done,
         createdAt = ''2024-01-02T00:00:00.000Z'',
         updatedAt = ''2024-01-03T00:00:00.000Z'', dueDate = None, priority = Some 1\<rparr>]
   \<and> distinct (map id
       [\<lparr>id = ''a'', title = ''Buy milk'', description = None, status = Pending,
         createdAt = ''2024-01-01T00:00:00.000Z'',
         updatedAt = ''2024-01-01T00:00:00.000Z'', dueDate = None, priority = None\<rparr>,
        \<lparr>id = ''b'', title = ''Pay rent'', description = None, status = Done,
         createdAt = ''2024-01-02T00:00:00.000Z'',
         updatedAt = ''2024-01-03T00:00:00.000Z'', dueDate = None, priority = Some 1\<rparr>])
   \<and> fst (delete_todo ''c''
       [\<lparr>id = ''a'', title = ''Buy milk'', description = None, status = Pending,
         createdAt = ''2024-01-01T00:00:00.000Z'',
         updatedAt = ''2024-01-01T00:00:00.000Z'', dueDate = None, priority = None\<rparr>,
        \<lparr>id = ''b'', title = ''Pay rent'', description = None, status = Done,
         createdAt = ''2024-01-02T00:00:00.000Z'',
         updatedAt = ''2024-01-03T00:00:00.000Z'', dueDate = None, priority = Some 1\<rparr>])
     = NotFound
   \<and> delete_todo ''a''
       [\<lparr>id = ''a'', title = ''Buy milk'', description = None, status = Pending,
         createdAt = ''2024-01-01T00:00:00.000Z'',
         updatedAt = ''2024-01-01T00:00:00.000Z'', dueDate = None, priority = None\<rparr>,
        \<lparr>id = ''b'', title = ''Pay rent'', description = None, status = Done,
         createdAt = ''2024-01-02T00:00:00.000Z'',
         updatedAt = ''2024-01-03T00:00:00.000Z'', dueDate = None, priority = Some 1\<rparr>]
     = (Ok \<lparr>id = ''a'', title = ''Buy milk'', description = None, status = Pending,
            createdAt = ''2024-01-01T00:00:00.000Z'',
            updatedAt = ''2024-01-01T00:00:00.000Z'', dueDate = None, priority = None\<rparr>,
        [\<lparr>id = ''b'', title = ''Pay rent'', description = None, status = Done,
          createdAt = ''2024-01-02T00:00:00.000Z'',
          updatedAt = ''2024-01-03T00:00:00.000Z'', dueDate = None, priority = Some 1\<rparr>])
   \<and> fst (delete_todo ''a''
       [\<lparr>id = ''b'', title = ''Pay rent'', description = None, status = Done,
         createdAt = ''2024-01-02T00:00:00.000Z'',
         updatedAt = ''2024-01-03T00:00:00.000Z'', dueDate = None, priority = Some 1\<rparr>])
     = NotFound"
proof -
  let ?a = "\<lparr>id = ''a'', title = ''Buy milk'', description = None, status = Pending,
         createdAt = ''2024-01-01T00:00:00.000Z'',
         updatedAt = ''2024-01-01T00:00:00.000Z'', dueDate = None,
         priority = None :: int option\<rparr>"
  let ?b = "\<lparr>id = ''b'', title = ''Pay rent'', description = None, status = Done,
         createdAt = ''2024-01-02T00:00:00.000Z'',
         updatedAt = ''2024-01-03T00:00:00.000Z'', dueDate = None,
         priority = Some (1::int)\<rparr>"
  have c: "''c'' \<notin> id ` set [?a, ?b]" by simp
  have a: "''a'' \<in> id ` set [?a, ?b]" by simp
  have d: "distinct (map id [?a, ?b])" by simp
  have once: "delete_todo ''a'' [?a, ?b] = (Ok ?a, [?b])"
    by (simp add: delete_todo_def splice1_def)
  from delete_removes_the_record [of "''c''" "[?a, ?b]"] c
  have absent: "fst (delete_todo ''c'' [?a, ?b]) = NotFound" by simp
  from delete_removes_the_record [of "''a''" "[?a, ?b]"] d
  have "delete_todo ''a'' (snd (delete_todo ''a'' [?a, ?b]))
      = (NotFound, snd (delete_todo ''a'' [?a, ?b]))"
    by blast
  with once have twice: "fst (delete_todo ''a'' [?b]) = NotFound" by simp
  from c a d once absent twice show ?thesis by simp
qed

section \<open>Timestamps\<close>

lemma stamps_ok_later: "stamps_ok c todos \<Longrightarrow> c \<le> now \<Longrightarrow> stamps_ok now todos"
  by (auto simp: stamps_ok_def list_all_iff)

lemma stamps_ok_append:
  "stamps_ok c todos \<Longrightarrow> createdAt t \<le> updatedAt t \<Longrightarrow> updatedAt t \<le> c
   \<Longrightarrow> stamps_ok c (todos @ [t])"
  by (simp add: stamps_ok_def)

lemma stamps_ok_update:
  assumes "stamps_ok c todos" and "createdAt t \<le> updatedAt t" and "updatedAt t \<le> c"
  shows "stamps_ok c (todos[k := t])"
proof -
  have "set (todos[k := t]) \<subseteq> insert t (set todos)"
    by (rule set_update_subset_insert)
  with assms show ?thesis
    by (auto simp: stamps_ok_def list_all_iff)
qed

lemma stamps_ok_nth: "stamps_ok c todos \<Longrightarrow> k < length todos
    \<Longrightarrow> createdAt (todos ! k) \<le> updatedAt (todos ! k) \<and> updatedAt (todos ! k) \<le> c"
  by (simp add: stamps_ok_def list_all_length)

lemma stamps_ok_remove: "stamps_ok c todos \<Longrightarrow> stamps_ok c (take k todos @ drop (Suc k) todos)"
  by (auto simp: stamps_ok_def list_all_iff dest: in_set_takeD in_set_dropD)

text \<open>What each handler writes into the two timestamps.\<close>

lemma post_todos_stamps:
  "post_todos dt now uuid body todos = (Created t, todos') \<Longrightarrow>
     todos' = todos @ [t] \<and> createdAt t = now \<and> updatedAt t = now"
  by (auto simp: post_todos_def Let_def split: sum.splits)

lemma patch_todo_stamps:
  "patch_todo dt now i body todos = (Ok t, todos') \<Longrightarrow>
     \<exists>k. findIndex i todos = Some k \<and> todos' = todos[k := t]
       \<and> createdAt t = createdAt (todos ! k) \<and> updatedAt t = now"
  by (auto simp: patch_todo_def merge_patch_def Let_def split: sum.splits option.splits)

lemma put_todo_stamps:
  "put_todo dt now i body todos = (Created t, todos') \<Longrightarrow>
     todos' = todos @ [t] \<and> createdAt t = now \<and> updatedAt t = now"
  "put_todo dt now i body todos = (Ok t, todos') \<Longrightarrow>
     \<exists>k. findIndex i todos = Some k \<and> todos' = todos[k := t]
       \<and> createdAt t = createdAt (todos ! k) \<and> updatedAt t = now"
  by (auto simp: put_todo_def Let_def split: sum.splits option.splits)

lemma set_status_stamps:
  "set_status s now i todos = (Ok t, todos') \<Longrightarrow>
     \<exists>k. findIndex i todos = Some k \<and> todos' = todos[k := t]
       \<and> createdAt t = createdAt (todos ! k) \<and> updatedAt t = now"
  by (auto simp: set_status_def Let_def split: option.splits)

text \<open>Each handler keeps the invariant when the clock has not gone back.\<close>

lemma stamps_ok_replaced:
  assumes ok: "stamps_ok c todos" and later: "c \<le> now"
    and k: "findIndex i todos = Some k"
    and t: "createdAt t = createdAt (todos ! k)" "updatedAt t = now"
  shows "stamps_ok now (todos[k := t])"
proof -
  from findIndex_Some [OF k] have "k < length todos" by simp
  with ok have "createdAt (todos ! k) \<le> updatedAt (todos ! k)" "updatedAt (todos ! k) \<le> c"
    using stamps_ok_nth by blast+
  with later t have "createdAt t \<le> updatedAt t" by simp
  moreover from t have "updatedAt t \<le> now" by simp
  ultimately show ?thesis
    using stamps_ok_update stamps_ok_later [OF ok later] by blast
qed

lemma stamps_ok_appended:
  assumes "stamps_ok c todos" and "c \<le> now" and "createdAt t = now" and "updatedAt t = now"
  shows "stamps_ok now (todos @ [t])"
  using stamps_ok_append [OF stamps_ok_later [OF assms(1,2)], of t] assms(3,4) by simp

lemma post_todos_stamps_ok:
  assumes "stamps_ok c todos" and "c \<le> now"
  shows "stamps_ok now (snd (post_todos dt now uuid body todos))"
proof (cases "createTodoSchema dt body")
  case (Inl e)
  with assms show ?thesis by (simp add: post_todos_def stamps_ok_later)
next
  case (Inr input)
  then show ?thesis
    using stamps_ok_appended [OF assms] by (simp add: post_todos_def Let_def)
qed

lemma patch_todo_stamps_ok:
  assumes "stamps_ok c todos" and "c \<le> now"
  shows "stamps_ok now (snd (patch_todo dt now i body todos))"
proof (cases "patch_todo dt now i body todos")
  case (Pair r todos')
  show ?thesis
  proof (cases "\<exists>t. r = Ok t")
    case True
    then obtain t where "r = Ok t" by blast
    with Pair patch_todo_stamps [of dt now i body todos t todos'] assms show ?thesis
      by (auto intro: stamps_ok_replaced)
  next
    case False
    with Pair have "todos' = todos"
      by (auto simp: patch_todo_def Let_def split: sum.splits option.splits)
    with Pair assms show ?thesis by (simp add: stamps_ok_later)
  qed
qed

lemma put_todo_stamps_ok:
  assumes "stamps_ok c todos" and "c \<le> now"
  shows "stamps_ok now (snd (put_todo dt now i body todos))"
proof (cases "put_todo dt now i body todos")
  case (Pair r todos')
  consider t where "r = Ok t" | t where "r = Created t"
    | "(\<forall>t. r \<noteq> Ok t) \<and> (\<forall>t. r \<noteq> Created t)"
    by blast
  then show ?thesis
  proof cases
    case 1
    with Pair put_todo_stamps(2) [of dt now i body todos t todos'] assms show ?thesis
      by (auto intro: stamps_ok_replaced)
  next
    case 2
    with Pair put_todo_stamps(1) [of dt now i body todos t todos'] assms show ?thesis
      by (auto intro: stamps_ok_appended)
  next
    case 3
    with Pair have "todos' = todos"
      by (auto simp: put_todo_def Let_def split: sum.splits option.splits)
    with Pair assms show ?thesis by (simp add: stamps_ok_later)
  qed
qed

lemma set_status_stamps_ok:
  assumes "stamps_ok c todos" and "c \<le> now"
  shows "stamps_ok now (snd (set_status s now i todos))"
proof (cases "findIndex i todos")
  case None
  with assms show ?thesis by (simp add: set_status_def stamps_ok_later)
next
  case (Some k)
  then show ?thesis
    using stamps_ok_replaced [OF assms Some] by (simp add: set_status_def Let_def)
qed

lemma delete_todo_stamps_ok:
  assumes "stamps_ok c todos" and "c \<le> now"
  shows "stamps_ok now (snd (delete_todo i todos))"
proof (cases "findIndex i todos")
  case None
  with assms show ?thesis by (simp add: delete_todo_def stamps_ok_later)
next
  case (Some k)
  from stamps_ok_remove [OF stamps_ok_later [OF assms]] Some show ?thesis
    by (simp add: delete_todo_def splice1_def)
qed

lemma get_todos_unchanged: "snd (get_todos rq todos) = todos"
  by (simp add: get_todos_def split: sum.splits)

lemma get_todo_unchanged: "snd (get_todo i todos) = todos"
  by (simp add: get_todo_def split: option.splits)

lemma handle_stamps_ok:
  assumes "stamps_ok c todos" and "c \<le> now"
  shows "stamps_ok now (snd (handle dt now uuid r todos))"
proof (cases r)
  case (GetTodos rq)
  with assms show ?thesis by (simp add: get_todos_unchanged stamps_ok_later)
next
  case (PostTodos body)
  with assms show ?thesis by (simp add: post_todos_stamps_ok)
next
  case (GetTodo i)
  with assms show ?thesis by (simp add: get_todo_unchanged stamps_ok_later)
next
  case (PatchTodo i body)
  with assms show ?thesis by (simp add: patch_todo_stamps_ok)
next
  case (PutTodo i body)
  with assms show ?thesis by (simp add: put_todo_stamps_ok)
next
  case (DeleteTodo i)
  with assms show ?thesis by (simp add: delete_todo_stamps_ok)
next
  case (PostDone i)
  with assms show ?thesis by (simp add: post_done_def set_status_stamps_ok)
next
  case (PostPending i)
  with assms show ?thesis by (simp add: post_pending_def set_status_stamps_ok)
qed

lemma run_stamps_ok:
  "sorted (map fst es) \<Longrightarrow> list_all (\<lambda>e. c \<le> fst e) es \<Longrightarrow> stamps_ok c todos
   \<Longrightarrow> \<exists>c'. stamps_ok c' (run dt es todos)"
proof (induction es arbitrary: c todos)
  case Nil
  then show ?case by auto
next
  case (Cons e es)
  obtain now uuid r where e: "e = (now, uuid, r)" by (cases e)
  from Cons.prems(2) e have "c \<le> now" by simp
  with Cons.prems(3) have "stamps_ok now (snd (handle dt now uuid r todos))"
    by (rule handle_stamps_ok)
  moreover from Cons.prems(1) e have "sorted (map fst es)" "list_all (\<lambda>e. now \<le> fst e) es"
    by (auto simp: list_all_iff)
  ultimately show ?case
    using Cons.IH e by simp
qed

lemma run_createdAt_le_updatedAt:
  assumes "sorted (map fst es)" and "t \<in> set (run dt es [])"
  shows "createdAt t \<le> updatedAt t"
proof -
  have "list_all (\<lambda>e. [] \<le> fst e) es" by (simp add: list_all_iff)
  moreover have "stamps_ok [] []" by (simp add: stamps_ok_def)
  ultimately obtain c' where "stamps_ok c' (run dt es [])"
    using run_stamps_ok [OF assms(1)] by blast
  with assms(2) show ?thesis
    by (auto simp: stamps_ok_def list_all_iff)
qed

text \<open>
  C5. First, in every state the server reaches from the empty array by serving
  requests, with the times its handlers read never going back, each record of the
  array has \<^verbatim>\<open>createdAt\<close> at most \<^verbatim>\<open>updatedAt\<close>. Then, handler by handler, what is
  written: POST on a body the create schema accepts appends a record with both
  timestamps equal to the current time; PATCH on a found id and an accepted body stores
  the merged record, with the old \<^verbatim>\<open>createdAt\<close> and \<^verbatim>\<open>updatedAt\<close> the current time; PUT on an
  accepted body appends a record with both timestamps the current time when the id is
  not found, and otherwise stores a record with the old \<^verbatim>\<open>createdAt\<close> and \<^verbatim>\<open>updatedAt\<close> the
  current time; the two status actions on a found id store the record with the new
  status and \<^verbatim>\<open>updatedAt\<close> the current time, \<^verbatim>\<open>createdAt\<close> as it was. Last, any request
  served at a time not before the last reading of the clock keeps every record's
  \<^verbatim>\<open>createdAt\<close> at most its \<^verbatim>\<open>updatedAt\<close>, and that at most the time of the request.
\<close>

theorem updatedAt_not_before_createdAt:
  "(sorted (map fst es) \<and> t \<in> set (run dt es []) \<longrightarrow> createdAt t \<le> updatedAt t)
   \<and> (createTodoSchema dt body = Inr input \<longrightarrow>
        post_todos dt now uuid body todos =
          (Created \<lparr>id = uuid, title = c_title input, description = c_description input,
                    status = Pending, createdAt = now, updatedAt = now,
                    dueDate = c_dueDate input, priority = c_priority input\<rparr>,
           todos @ [\<lparr>id = uuid, title = c_title input, description = c_description input,
                     status = Pending, createdAt = now, updatedAt = now,
                     dueDate = c_dueDate input, priority = c_priority input\<rparr>]))
   \<and> (findIndex i todos = Some idx \<and> updateTodoSchema dt body = Inr patch \<longrightarrow>
        patch_todo dt now i body todos =
          (Ok (merge_patch now (todos ! idx) patch),
           todos[idx := merge_patch now (todos ! idx) patch])
        \<and> createdAt (merge_patch now (todos ! idx) patch) = createdAt (todos ! idx)
        \<and> updatedAt (merge_patch now (todos ! idx) patch) = now)
   \<and> (replaceTodoSchema dt (put_body body) = Inr c \<and> findIndex i todos = None \<longrightarrow>
        put_todo dt now i body todos =
          (Created \<lparr>id = i, title = r_title c, description = r_description c,
                    status = r_status c, createdAt = now, updatedAt = now,
                    dueDate = r_dueDate c, priority = r_priority c\<rparr>,
           todos @ [\<lparr>id = i, title = r_title c, description = r_description c,
                     status = r_status c, createdAt = now, updatedAt = now,
                     dueDate = r_dueDate c, priority = r_priority c\<rparr>]))
   \<and> (replaceTodoSchema dt (put_body body) = Inr c \<and> findIndex i todos = Some idx \<longrightarrow>
        put_todo dt now i body todos =
          (Ok \<lparr>id = id (todos ! idx), title = r_title c, description = r_description c,
               status = r_status c, createdAt = createdAt (todos ! idx), updatedAt = now,
               dueDate = r_dueDate c, priority = r_priority c\<rparr>,
           todos[idx := \<lparr>id = id (todos ! idx), title = r_title c,
               description = r_description c, status = r_status c,
               createdAt = createdAt (todos ! idx), updatedAt = now,
               dueDate = r_dueDate c, priority = r_priority c\<rparr>]))
   \<and> (findIndex i todos = Some idx \<longrightarrow>
        post_done now i todos =
          (Ok ((todos ! idx)\<lparr>status := Done, updatedAt := now\<rparr>),
           todos[idx := (todos ! idx)\<lparr>status := Done, updatedAt := now\<rparr>])
        \<and> post_pending now i todos =
          (Ok ((todos ! idx)\<lparr>status := Pending, updatedAt := now\<rparr>),
           todos[idx := (todos ! idx)\<lparr>status := Pending, updatedAt := now\<rparr>]))
   \<and> (stamps_ok c0 todos \<and> c0 \<le> now \<longrightarrow>
        stamps_ok now (snd (handle dt now uuid r todos)))"
proof (intro conjI impI)
  assume "sorted (map fst es) \<and> t \<in> set (run dt es [])"
  then show "createdAt t \<le> updatedAt t"
    using run_createdAt_le_updatedAt by blast
next
  assume "createTodoSchema dt body = Inr input"
  then show "post_todos dt now uuid body todos =
      (Created \<lparr>id = uuid, title = c_title input, description = c_description input,
                status = Pending, createdAt = now, updatedAt = now,
                dueDate = c_dueDate input, priority = c_priority input\<rparr>,
       todos @ [\<lparr>id = uuid, title = c_title input, description = c_description input,
                 status = Pending, createdAt = now, updatedAt = now,
                 dueDate = c_dueDate input, priority = c_priority input\<rparr>])"
    by (simp add: post_todos_def Let_def)
next
  assume "findIndex i todos = Some idx \<and> updateTodoSchema dt body = Inr patch"
  then show "patch_todo dt now i body todos =
      (Ok (merge_patch now (todos ! idx) patch),
       todos[idx := merge_patch now (todos ! idx) patch])"
    by (simp add: patch_todo_def Let_def)
next
  show "createdAt (merge_patch now (todos ! idx) patch) = createdAt (todos ! idx)"
    by (simp add: merge_patch_def)
next
  show "updatedAt (merge_patch now (todos ! idx) patch) = now"
    by (simp add: merge_patch_def)
next
  assume "replaceTodoSchema dt (put_body body) = Inr c \<and> findIndex i todos = None"
  then show "put_todo dt now i body todos =
      (Created \<lparr>id = i, title = r_title c, description = r_description c,
                status = r_status c, createdAt = now, updatedAt = now,
                dueDate = r_dueDate c, priority = r_priority c\<rparr>,
       todos @ [\<lparr>id = i, title = r_title c, description = r_description c,
                 status = r_status c, createdAt = now, updatedAt = now,
                 dueDate = r_dueDate c, priority = r_priority c\<rparr>])"
    by (simp add: put_todo_def Let_def)
next
  assume "replaceTodoSchema dt (put_body body) = Inr c \<and> findIndex i todos = Some idx"
  then show "put_todo dt now i body todos =
      (Ok \<lparr>id = id (todos ! idx), title = r_title c, description = r_description c,
           status = r_status c, createdAt = createdAt (todos ! idx), updatedAt = now,
           dueDate = r_dueDate c, priority = r_priority c\<rparr>,
       todos[idx := \<lparr>id = id (todos ! idx), title = r_title c,
           description = r_description c, status = r_status c,
           createdAt = createdAt (todos ! idx), updatedAt = now,
           dueDate = r_dueDate c, priority = r_priority c\<rparr>])"
    by (simp add: put_todo_def Let_def)
next
  assume "findIndex i todos = Some idx"
  then show "post_done now i todos =
      (Ok ((todos ! idx)\<lparr>status := Done, updatedAt := now\<rparr>),
       todos[idx := (todos ! idx)\<lparr>status := Done, updatedAt := now\<rparr>])"
    by (simp add: post_done_def set_status_def Let_def)
next
  assume "findIndex i todos = Some idx"
  then show "post_pending now i todos =
      (Ok ((todos ! idx)\<lparr>status := Pending, updatedAt := now\<rparr>),
       todos[idx := (todos ! idx)\<lparr>status := Pending, updatedAt := now\<rparr>])"
    by (simp add: post_pending_def set_status_def Let_def)
next
  assume "stamps_ok c0 todos \<and> c0 \<le> now"
  then show "stamps_ok now (snd (handle dt now uuid r todos))"
    using handle_stamps_ok by blast
qed

text \<open>
  A record is created on 1 January, marked done the next day and patched the day after:
  at the end its \<^verbatim>\<open>updatedAt\<close> is two days after its \<^verbatim>\<open>createdAt\<close>. The handlers one by
  one, on the record as created: each writes the time of its request into \<^verbatim>\<open>updatedAt\<close>
  and keeps \<^verbatim>\<open>createdAt\<close>; POST and a PUT on an unknown id write it into both.
\<close>

theorem updatedAt_not_before_createdAt_witness:
  "sorted (map fst
     [(''2024-01-01T00:00:00.000Z'', ''a'', PostTodos (JObj [(''title'', JStr ''Buy milk'')])),
      (''2024-01-02T00:00:00.000Z'', ''b'', PostDone ''a''),
      (''2024-01-03T00:00:00.000Z'', ''c'', PatchTodo ''a'' (JObj [(''title'', JStr ''Buy oat milk'')]))])
   \<and> run top
       [(''2024-01-01T00:00:00.000Z'', ''a'', PostTodos (JObj [(''title'', JStr ''Buy milk'')])),
        (''2024-01-02T00:00:00.000Z'', ''b'', PostDone ''a''),
        (''2024-01-03T00:00:00.000Z'', ''c'', PatchTodo ''a'' (JObj [(''title'', JStr ''Buy oat milk'')]))]
       []
     = [\<lparr>id = ''a'', title = ''Buy oat milk'', description = None, status = Done,
         createdAt = ''2024-01-01T00:00:00.000Z'',
         updatedAt = ''2024-01-03T00:00:00.000Z'', dueDate = None, priority = None\<rparr>]
   \<and> createdAt \<lparr>id = ''a'', title = ''Buy oat milk'', description = None, status = Done,
         createdAt = ''2024-01-01T00:00:00.000Z'',
         updatedAt = ''2024-01-03T00:00:00.000Z'', dueDate = None, priority = None :: int option\<rparr>
     \<le> updatedAt \<lparr>id = ''a'', title = ''Buy oat milk'', description = None, status = Done,
         createdAt = ''2024-01-01T00:00:00.000Z'',
         updatedAt = ''2024-01-03T00:00:00.000Z'', dueDate = None, priority = None :: int option\<rparr>
   \<and> post_todos top ''2024-01-01T00:00:00.000Z'' ''a'' (JObj [(''title'', JStr ''Buy milk'')]) []
     = (Created \<lparr>id = ''a'', title = ''Buy milk'', description = None, status = Pending,
                 createdAt = ''2024-01-01T00:00:00.000Z'',
                 updatedAt = ''2024-01-01T00:00:00.000Z'', dueDate = None, priority = None\<rparr>,
        [\<lparr>id = ''a'', title = ''Buy milk'', description = None, status = Pending,
          createdAt = ''2024-01-01T00:00:00.000Z'',
          updatedAt = ''2024-01-01T00:00:00.000Z'', dueDate = None, priority = None\<rparr>])
   \<and> patch_todo top ''2024-01-03T00:00:00.000Z'' ''a'' (JObj [(''title'', JStr ''Buy oat milk'')])
        [\<lparr>id = ''a'', title = ''Buy milk'', description = None, status = Pending,
          createdAt = ''2024-01-01T00:00:00.000Z'',
          updatedAt = ''2024-01-01T00:00:00.000Z'', dueDate = None, priority = None\<rparr>]
     = (Ok \<lparr>id = ''a'', title = ''Buy oat milk'', description = None, status = Pending,
            createdAt = ''2024-01-01T00:00:00.000Z'',
            updatedAt = ''2024-01-03T00:00:00.000Z'', dueDate = None, priority = None\<rparr>,
        [\<lparr>id = ''a'', title = ''Buy oat milk'', description = None, status = Pending,
          createdAt = ''2024-01-01T00:00:00.000Z'',
          updatedAt = ''2024-01-03T00:00:00.000Z'', dueDate = None, priority = None\<rparr>])
   \<and> put_todo top ''2024-01-02T00:00:00.000Z'' ''k'' (JObj [(''title'', JStr ''Pay rent'')]) []
     = (Created \<lparr>id = ''k'', title = ''Pay rent'', description = None, status = Pending,
                 createdAt = ''2024-01-02T00:00:00.000Z'',
                 updatedAt = ''2024-01-02T00:00:00.000Z'', dueDate = None, priority = None\<rparr>,
        [\<lparr>id = ''k'', title = ''Pay rent'', description = None, status = Pending,
          createdAt = ''2024-01-02T00:00:00.000Z'',
          updatedAt = ''2024-01-02T00:00:00.000Z'', dueDate = None, priority = None\<rparr>])
   \<and> put_todo top ''2024-01-02T00:00:00.000Z'' ''a'' (JObj [(''title'', JStr ''Pay rent'')])
        [\<lparr>id = ''a'', title = ''Buy milk'', description = None, status = Pending,
          createdAt = ''2024-01-01T00:00:00.000Z'',
          updatedAt = ''2024-01-01T00:00:00.000Z'', dueDate = None, priority = None\<rparr>]
     = (Ok \<lparr>id = ''a'', title = ''Pay rent'', description = None, status = Pending,
            createdAt = ''2024-01-01T00:00:00.000Z'',
            updatedAt = ''2024-01-02T00:00:00.000Z'', dueDate = None, priority = None\<rparr>,
        [\<lparr>id = ''a'', title = ''Pay rent'', description = None, status = Pending,
          createdAt = ''2024-01-01T00:00:00.000Z'',
          updatedAt = ''2024-01-02T00:00:00.000Z'', dueDate = None, priority = None\<rparr>])
   \<and> post_done ''2024-01-02T00:00:00.000Z'' ''a''
        [\<lparr>id = ''a'', title = ''Buy milk'', description = None, status = Pending,
          createdAt = ''2024-01-01T00:00:00.000Z'',
          updatedAt = ''2024-01-01T00:00:00.000Z'', dueDate = None, priority = None\<rparr>]
     = (Ok \<lparr>id = ''a'', title = ''Buy milk'', description = None, status = Done,
            createdAt = ''2024-01-01T00:00:00.000Z'',
            updatedAt = ''2024-01-02T00:00:00.000Z'', dueDate = None, priority = None\<rparr>,
        [\<lparr>id = ''a'', title = ''Buy milk'', description = None, status = Done,
          createdAt = ''2024-01-01T00:00:00.000Z'',
          updatedAt = ''2024-01-02T00:00:00.000Z'', dueDate = None, priority = None\<rparr>])
   \<and> post_pending ''2024-01-02T00:00:00.000Z'' ''a''
        [\<lparr>id = ''a'', title = ''Buy milk'', description = None, status = Done,
          createdAt = ''2024-01-01T00:00:00.000Z'',
          updatedAt = ''2024-01-01T00:00:00.000Z'', dueDate = None, priority = None\<rparr>]
     = (Ok \<lparr>id = ''a'', title = ''Buy milk'', description = None, status = Pending,
            createdAt = ''2024-01-01T00:00:00.000Z'',
            updatedAt = ''2024-01-02T00:00:00.000Z'', dueDate = None, priority = None\<rparr>,
        [\<lparr>id = ''a'', title = ''Buy milk'', description = None, status = Pending,
          createdAt = ''2024-01-01T00:00:00.000Z'',
          updatedAt = ''2024-01-02T00:00:00.000Z'', dueDate = None, priority = None\<rparr>])
   \<and> stamps_ok ''2024-01-02T00:00:00.000Z''
        (snd (handle top ''2024-01-02T00:00:00.000Z'' ''u'' (PostDone ''a'')
           [\<lparr>id = ''a'', title = ''Buy milk'', description = None, status = Pending,
             createdAt = ''2024-01-01T00:00:00.000Z'',
             updatedAt = ''2024-01-01T00:00:00.000Z'', dueDate = None, priority = None\<rparr>]))"
proof -
  let ?es = "[(''2024-01-01T00:00:00.000Z'', ''a'', PostTodos (JObj [(''title'', JStr ''Buy milk'')])),
      (''2024-01-02T00:00:00.000Z'', ''b'', PostDone ''a''),
      (''2024-01-03T00:00:00.000Z'', ''c'', PatchTodo ''a'' (JObj [(''title'', JStr ''Buy oat milk'')]))]"
  let ?end = "\<lparr>id = ''a'', title = ''Buy oat milk'', description = None, status = Done,
         createdAt = ''2024-01-01T00:00:00.000Z'',
         updatedAt = ''2024-01-03T00:00:00.000Z'', dueDate = None, priority = None :: int option\<rparr>"
  let ?t = "\<lparr>id = ''a'', title = ''Buy milk'', description = None, status = Pending,
          createdAt = ''2024-01-01T00:00:00.000Z'',
          updatedAt = ''2024-01-01T00:00:00.000Z'', dueDate = None,
          priority = None :: int option\<rparr>"
  let ?d = "?t\<lparr>status := Done\<rparr>"
  let ?milk = "JObj [(''title'', JStr ''Buy milk'')]"
  let ?oat = "JObj [(''title'', JStr ''Buy oat milk'')]"
  let ?rent = "JObj [(''title'', JStr ''Pay rent'')]"
  let ?n1 = "''2024-01-01T00:00:00.000Z''"
  let ?n2 = "''2024-01-02T00:00:00.000Z''"
  let ?n3 = "''2024-01-03T00:00:00.000Z''"
  have s: "sorted (map fst ?es)" by simp
  have r: "run top ?es [] = [?end]"
    by (simp add: post_todos_def createTodoSchema_def z_required_def z_optional_def z_string_def
        post_done_def set_status_def patch_todo_def updateTodoSchema_def
        z_optional_nullable_def merge_patch_def Let_def)
  then have m: "?end \<in> set (run top ?es [])" by simp
  have create: "createTodoSchema top ?milk
      = Inr \<lparr>c_title = ''Buy milk'', c_description = None, c_dueDate = None, c_priority = None\<rparr>"
    by (simp add: createTodoSchema_def z_required_def z_optional_def z_string_def)
  have update: "updateTodoSchema top ?oat
      = Inr \<lparr>u_title = Some ''Buy oat milk'', u_description = None, u_status = None,
             u_dueDate = Undefined, u_priority = Undefined\<rparr>"
    by (simp add: updateTodoSchema_def z_optional_def z_optional_nullable_def z_string_def)
  have replace: "replaceTodoSchema top (put_body ?rent)
      = Inr \<lparr>r_title = ''Pay rent'', r_description = None, r_dueDate = None,
             r_priority = None, r_status = Pending\<rparr>"
    by (simp add: replaceTodoSchema_def put_body_def spread_def z_required_def z_optional_def
        z_default_def z_string_def z_status_def)
  have found: "findIndex ''a'' [?t] = Some 0" by simp
  have found_done: "findIndex ''a'' [?d] = Some 0" by simp
  have unknown: "findIndex ''k'' ([] :: Todo list) = None" by simp
  have ok: "stamps_ok ?n1 [?t]" by (simp add: stamps_ok_def)
  have later: "?n1 \<le> ?n2" by simp
  note inv = updatedAt_not_before_createdAt [THEN conjunct1, THEN mp]
  note post = updatedAt_not_before_createdAt [THEN conjunct2, THEN conjunct1, THEN mp]
  note patch = updatedAt_not_before_createdAt
    [THEN conjunct2, THEN conjunct2, THEN conjunct1, THEN mp]
  note put_new = updatedAt_not_before_createdAt
    [THEN conjunct2, THEN conjunct2, THEN conjunct2, THEN conjunct1, THEN mp]
  note put_old = updatedAt_not_before_createdAt
    [THEN conjunct2, THEN conjunct2, THEN conjunct2, THEN conjunct2, THEN conjunct1, THEN mp]
  note toggle = updatedAt_not_before_createdAt
    [THEN conjunct2, THEN conjunct2, THEN conjunct2, THEN conjunct2, THEN conjunct2,
     THEN conjunct1, THEN mp]
  note step = updatedAt_not_before_createdAt
    [THEN conjunct2, THEN conjunct2, THEN conjunct2, THEN conjunct2, THEN conjunct2,
     THEN conjunct2, THEN mp]
  from inv [OF conjI [OF s m]] have 1: "createdAt ?end \<le> updatedAt ?end" .
  from post [OF create, of ?n1 "''a''" "[]"]
  have 2: "post_todos top ?n1 ''a'' ?milk [] = (Created ?t, [?t])" by simp
  from patch [OF conjI [OF found update], of ?n3]
  have 3: "patch_todo top ?n3 ''a'' ?oat [?t]
      = (Ok (?t\<lparr>title := ''Buy oat milk'', updatedAt := ?n3\<rparr>),
         [?t\<lparr>title := ''Buy oat milk'', updatedAt := ?n3\<rparr>])"
    by (simp add: merge_patch_def)
  from put_new [OF conjI [OF replace unknown], of ?n2]
  have 4: "put_todo top ?n2 ''k'' ?rent []
      = (Created (?t\<lparr>id := ''k'', title := ''Pay rent'', createdAt := ?n2, updatedAt := ?n2\<rparr>),
         [?t\<lparr>id := ''k'', title := ''Pay rent'', createdAt := ?n2, updatedAt := ?n2\<rparr>])"
    by simp
  from put_old [OF conjI [OF replace found], of ?n2]
  have 5: "put_todo top ?n2 ''a'' ?rent [?t]
      = (Ok (?t\<lparr>title := ''Pay rent'', updatedAt := ?n2\<rparr>),
         [?t\<lparr>title := ''Pay rent'', updatedAt := ?n2\<rparr>])"
    by simp
  from toggle [OF found, of ?n2]
  have 6: "post_done ?n2 ''a'' [?t]
      = (Ok (?t\<lparr>status := Done, updatedAt := ?n2\<rparr>),
         [?t\<lparr>status := Done, updatedAt := ?n2\<rparr>])"
    by simp
  from toggle [OF found_done, of ?n2]
  have 7: "post_pending ?n2 ''a'' [?d] = (Ok (?t\<lparr>updatedAt := ?n2\<rparr>), [?t\<lparr>updatedAt := ?n2\<rparr>])"
    by simp
  from step [OF conjI [OF ok later], of top "''u''" "PostDone ''a''"]
  have 8: "stamps_ok ?n2 (snd (handle top ?n2 ''u'' (PostDone ''a'') [?t]))" .
  from s r 1 2 3 4 5 6 7 8 show ?thesis by simp
qed

section \<open>Unique ids\<close>

text \<open>
  The ids of the array stay pairwise different as long as each identifier drawn for a
  POST is not the id of a record already there: only POST and a creating PUT add a
  record, the latter under an id it has just found absent, and the handlers that
  rewrite a record keep its id.
\<close>

lemma map_id_update: "k < length ts \<Longrightarrow> id t = id (ts ! k) \<Longrightarrow> map id (ts[k := t]) = map id ts"
  by (simp add: map_update list_update_same_conv)

lemma distinct_remove_nth: "distinct xs \<Longrightarrow> distinct (take k xs @ drop (Suc k) xs)"
proof (induction xs arbitrary: k)
  case Nil
  show ?case by simp
next
  case (Cons x xs)
  show ?case
  proof (cases k)
    case 0
    with Cons.prems show ?thesis by simp
  next
    case (Suc j)
    with Cons show ?thesis
      by (auto dest: in_set_takeD in_set_dropD)
  qed
qed

lemma distinct_ids_remove:
  assumes "distinct (map id ts)"
  shows "distinct (map id (take k ts @ drop (Suc k) ts))"
  using distinct_remove_nth [OF assms, of k] by (simp add: take_map drop_map)

lemma handle_distinct_ids:
  assumes d: "distinct (map id todos)" and fresh: "uuid \<notin> id ` set todos"
  shows "distinct (map id (snd (handle dt now uuid r todos)))"
proof (cases r)
  case (GetTodos rq)
  with d show ?thesis by (simp add: get_todos_unchanged)
next
  case (PostTodos body)
  with d fresh show ?thesis
    by (auto simp: post_todos_def Let_def split: sum.splits)
next
  case (GetTodo i)
  with d show ?thesis by (simp add: get_todo_unchanged)
next
  case (PatchTodo i body)
  show ?thesis
  proof (cases "findIndex i todos")
    case None
    with d PatchTodo show ?thesis by (simp add: patch_todo_def)
  next
    case (Some k)
    from findIndex_Some [OF Some] have "k < length todos" by simp
    with d PatchTodo Some show ?thesis
      by (auto simp: patch_todo_def Let_def merge_patch_def map_id_update split: sum.splits)
  qed
next
  case (PutTodo i body)
  show ?thesis
  proof (cases "findIndex i todos")
    case None
    then have "i \<notin> id ` set todos" by (simp add: findIndex_None_iff)
    with d PutTodo None show ?thesis
      by (auto simp: put_todo_def Let_def split: sum.splits)
  next
    case (Some k)
    from findIndex_Some [OF Some] have "k < length todos" by simp
    with d PutTodo Some show ?thesis
      by (auto simp: put_todo_def Let_def map_id_update split: sum.splits)
  qed
next
  case (DeleteTodo i)
  show ?thesis
  proof (cases "findIndex i todos")
    case None
    with d DeleteTodo show ?thesis by (simp add: delete_todo_def)
  next
    case (Some k)
    with DeleteTodo distinct_ids_remove [OF d, of k] show ?thesis
      by (simp add: delete_todo_def splice1_def)
  qed
next
  case (PostDone i)
  show ?thesis
  proof (cases "findIndex i todos")
    case None
    with d PostDone show ?thesis by (simp add: post_done_def set_status_def)
  next
    case (Some k)
    from findIndex_Some [OF Some] have "k < length todos" by simp
    with d PostDone Some show ?thesis
      by (simp add: post_done_def set_status_def Let_def map_id_update)
  qed
next
  case (PostPending i)
  show ?thesis
  proof (cases "findIndex i todos")
    case None
    with d PostPending show ?thesis by (simp add: post_pending_def set_status_def)
  next
    case (Some k)
    from findIndex_Some [OF Some] have "k < length todos" by simp
    with d PostPending Some show ?thesis
      by (simp add: post_pending_def set_status_def Let_def map_id_update)
  qed
qed

section \<open>Sorting\<close>

lemma mset_insert_by: "mset (insert_by cmp x xs) = add_mset x (mset xs)"
  by (induction xs) auto

lemma mset_sort_by: "mset (sort_by cmp xs) = mset xs"
  by (induction xs) (auto simp: mset_insert_by)

lemma set_insert_by: "set (insert_by cmp x xs) = insert x (set xs)"
  using mset_insert_by [of cmp x xs] by (metis set_mset_add_mset_insert set_mset_mset)

lemma length_sort_by: "length (sort_by cmp xs) = length xs"
  using mset_sort_by [of cmp xs] by (metis size_mset)

text \<open>
  Insertion keeps a list ordered when "does not come after" is transitive and any two
  elements compare one way or the other.
\<close>

lemma sorted_wrt_insert_by:
  assumes trans: "\<And>a b c. cmp a b \<le> 0 \<Longrightarrow> cmp b c \<le> 0 \<Longrightarrow> cmp a c \<le> 0"
    and total: "\<And>a b. cmp a b \<le> 0 \<or> cmp b a \<le> 0"
  shows "sorted_wrt (\<lambda>a b. cmp a b \<le> 0) xs
    \<Longrightarrow> sorted_wrt (\<lambda>a b. cmp a b \<le> 0) (insert_by cmp x xs)"
proof (induction xs)
  case Nil
  then show ?case by simp
next
  case (Cons y ys)
  show ?case
  proof (cases "cmp x y \<le> 0")
    case True
    with Cons.prems trans show ?thesis by auto
  next
    case False
    with total have "cmp y x \<le> 0" by blast
    with False Cons show ?thesis by (auto simp: set_insert_by)
  qed
qed

lemma sorted_wrt_sort_by:
  assumes "\<And>a b c. cmp a b \<le> 0 \<Longrightarrow> cmp b c \<le> 0 \<Longrightarrow> cmp a c \<le> 0"
    and "\<And>a b. cmp a b \<le> 0 \<or> cmp b a \<le> 0"
  shows "sorted_wrt (\<lambda>a b. cmp a b \<le> 0) (sort_by cmp xs)"
proof (induction xs)
  case Nil
  show ?case by simp
next
  case (Cons x xs)
  from assms Cons.IH
  have "sorted_wrt (\<lambda>a b. cmp a b \<le> 0) (insert_by cmp x (sort_by cmp xs))"
    by (rule sorted_wrt_insert_by)
  then show ?case by simp
qed

text \<open>The comparator says "not after" exactly when the two records are in order.\<close>

lemma comparator_le_iff: "comparator sortBy ord a b \<le> 0 \<longleftrightarrow> in_order sortBy ord a b"
proof (cases ord)
  case Asc
  then show ?thesis
    by (cases sortBy; cases "dueDate a"; cases "dueDate b"; cases "priority a";
        cases "priority b") (auto simp: comparator_def in_order_def field_def)
next
  case Desc
  then show ?thesis
    by (cases sortBy; cases "dueDate a"; cases "dueDate b"; cases "priority a";
        cases "priority b") (auto simp: comparator_def in_order_def field_def)
qed

lemma nulls_last_trans:
  "nulls_last ord x y \<Longrightarrow> nulls_last ord y z \<Longrightarrow> nulls_last ord x z"
  by (cases ord; cases x; cases y; cases z) auto

lemma nulls_last_total: "nulls_last ord x y \<or> nulls_last ord y x"
  by (cases ord; cases x; cases y) auto

lemma in_order_trans:
  "in_order sortBy ord a b \<Longrightarrow> in_order sortBy ord b c \<Longrightarrow> in_order sortBy ord a c"
  by (cases sortBy) (auto simp: in_order_def intro: nulls_last_trans)

lemma in_order_total: "in_order sortBy ord a b \<or> in_order sortBy ord b a"
proof (cases sortBy)
  case SortCreatedAt
  with nulls_last_total [of ord "Some (createdAt a)" "Some (createdAt b)"]
  show ?thesis by (simp add: in_order_def)
next
  case SortUpdatedAt
  with nulls_last_total [of ord "Some (updatedAt a)" "Some (updatedAt b)"]
  show ?thesis by (simp add: in_order_def)
next
  case SortDueDate
  with nulls_last_total [of ord "dueDate a" "dueDate b"]
  show ?thesis by (simp add: in_order_def)
next
  case SortPriority
  with nulls_last_total [of ord "priority a" "priority b"]
  show ?thesis by (simp add: in_order_def)
qed

lemma sorted_wrt_comparator:
  "sorted_wrt (in_order sortBy ord) (sort_by (comparator sortBy ord) xs)"
proof -
  have "sorted_wrt (\<lambda>a b. comparator sortBy ord a b \<le> 0) (sort_by (comparator sortBy ord) xs)"
  proof (rule sorted_wrt_sort_by)
    fix a b c
    assume "comparator sortBy ord a b \<le> 0" and "comparator sortBy ord b c \<le> 0"
    then show "comparator sortBy ord a c \<le> 0"
      unfolding comparator_le_iff by (rule in_order_trans)
  next
    fix a b
    show "comparator sortBy ord a b \<le> 0 \<or> comparator sortBy ord b a \<le> 0"
      unfolding comparator_le_iff by (rule in_order_total)
  qed
  then show ?thesis by (simp add: comparator_le_iff)
qed

text \<open>
  C2. The list the query sorts is the filtered list rearranged, and any record in it
  and any later one are in order: the later one lacks the sort member, or both have it
  and the two values are ascending for \<^verbatim>\<open>asc\<close>, descending for \<^verbatim>\<open>desc\<close>, priorities
  compared as numbers and the three timestamps as strings. In particular, when the
  query sorts by priority, in either direction, a record without priority stands at a
  later position than any record with one.
\<close>

theorem query_sort_puts_missing_last:
  "mset (sorted_result parsed todos) = mset (filtered parsed todos)
   \<and> sorted_wrt
       (in_order (case q_sortBy parsed of None \<Rightarrow> SortCreatedAt | Some s \<Rightarrow> s)
                 (case q_order parsed of None \<Rightarrow> Desc | Some r \<Rightarrow> r))
       (sorted_result parsed todos)
   \<and> (q_sortBy parsed = Some SortPriority \<longrightarrow>
        (\<forall>i j. i < length (sorted_result parsed todos) \<and> j < length (sorted_result parsed todos)
               \<and> priority (sorted_result parsed todos ! i) = None
               \<and> priority (sorted_result parsed todos ! j) \<noteq> None
             \<longrightarrow> j < i))"
proof (intro conjI impI allI)
  show "mset (sorted_result parsed todos) = mset (filtered parsed todos)"
    by (simp add: sorted_result_def mset_sort_by)
next
  show "sorted_wrt
       (in_order (case q_sortBy parsed of None \<Rightarrow> SortCreatedAt | Some s \<Rightarrow> s)
                 (case q_order parsed of None \<Rightarrow> Desc | Some r \<Rightarrow> r))
       (sorted_result parsed todos)"
    by (simp add: sorted_result_def sorted_wrt_comparator)
next
  fix i j
  let ?r = "sorted_result parsed todos"
  let ?ord = "case q_order parsed of None \<Rightarrow> Desc | Some r \<Rightarrow> r"
  assume by_priority: "q_sortBy parsed = Some SortPriority"
    and ij: "i < length ?r \<and> j < length ?r \<and> priority (?r ! i) = None
             \<and> priority (?r ! j) \<noteq> None"
  from by_priority have sorted: "sorted_wrt (in_order SortPriority ?ord) ?r"
    using sorted_wrt_comparator [of SortPriority ?ord "filtered parsed todos"]
    by (simp add: sorted_result_def)
  show "j < i"
  proof (rule ccontr)
    assume "\<not> j < i"
    with ij have "i < j" by (cases "i = j") auto
    with sorted ij have "in_order SortPriority ?ord (?r ! i) (?r ! j)"
      by (simp add: sorted_wrt_iff_nth_less)
    with ij show False by (auto simp: in_order_def)
  qed
qed

text \<open>
  The scenario of the specification: A with priority 1, B with priority 3 and C with
  none, stored in the order C, A, B and listed by ascending priority.
\<close>

theorem query_sort_puts_missing_last_witness:
  "q_sortBy \<lparr>q_q = None, q_status = None, q_priority = None, q_sortBy = Some SortPriority,
             q_order = Some Asc, q_page = None, q_pageSize = None\<rparr> = Some SortPriority
   \<and> sorted_result
        \<lparr>q_q = None, q_status = None, q_priority = None, q_sortBy = Some SortPriority,
         q_order = Some Asc, q_page = None, q_pageSize = None\<rparr>
        [\<lparr>id = ''c'', title = ''C'', description = None, status = Pending,
          createdAt = ''2024-01-01T00:00:00.000Z'', updatedAt = ''2024-01-01T00:00:00.000Z'',
          dueDate = None, priority = None\<rparr>,
         \<lparr>id = ''a'', title = ''A'', description = None, status = Pending,
          createdAt = ''2024-01-02T00:00:00.000Z'', updatedAt = ''2024-01-02T00:00:00.000Z'',
          dueDate = None, priority = Some 1\<rparr>,
         \<lparr>id = ''b'', title = ''B'', description = None, status = Done,
          createdAt = ''2024-01-03T00:00:00.000Z'', updatedAt = ''2024-01-03T00:00:00.000Z'',
          dueDate = None, priority = Some 3\<rparr>]
     = [\<lparr>id = ''a'', title = ''A'', description = None, status = Pending,
         createdAt = ''2024-01-02T00:00:00.000Z'', updatedAt = ''2024-01-02T00:00:00.000Z'',
         dueDate = None, priority = Some 1\<rparr>,
        \<lparr>id = ''b'', title = ''B'', description = None, status = Done,
         createdAt = ''2024-01-03T00:00:00.000Z'', updatedAt = ''2024-01-03T00:00:00.000Z'',
         dueDate = None, priority = Some 3\<rparr>,
        \<lparr>id = ''c'', title = ''C'', description = None, status = Pending,
         createdAt = ''2024-01-01T00:00:00.000Z'', updatedAt = ''2024-01-01T00:00:00.000Z'',
         dueDate = None, priority = None\<rparr>]
   \<and> sorted_wrt (in_order SortPriority Asc)
       [\<lparr>id = ''a'', title = ''A'', description = None, status = Pending,
         createdAt = ''2024-01-02T00:00:00.000Z'', updatedAt = ''2024-01-02T00:00:00.000Z'',
         dueDate = None, priority = Some 1\<rparr>,
        \<lparr>id = ''b'', title = ''B'', description = None, status = Done,
         createdAt = ''2024-01-03T00:00:00.000Z'', updatedAt = ''2024-01-03T00:00:00.000Z'',
         dueDate = None, priority = Some 3\<rparr>,
        \<lparr>id = ''c'', title = ''C'', description = None, status = Pending,
         createdAt = ''2024-01-01T00:00:00.000Z'', updatedAt = ''2024-01-01T00:00:00.000Z'',
         dueDate = None, priority = None\<rparr>]
   \<and> (0::nat) < 2"
proof -
  let ?P = "\<lparr>q_q = None, q_status = None, q_priority = None, q_sortBy = Some SortPriority,
             q_order = Some Asc, q_page = None, q_pageSize = None\<rparr>"
  let ?a = "\<lparr>id = ''a'', title = ''A'', description = None, status = Pending,
         createdAt = ''2024-01-02T00:00:00.000Z'', updatedAt = ''2024-01-02T00:00:00.000Z'',
         dueDate = None, priority = Some (1::int)\<rparr>"
  let ?b = "\<lparr>id = ''b'', title = ''B'', description = None, status = Done,
         createdAt = ''2024-01-03T00:00:00.000Z'', updatedAt = ''2024-01-03T00:00:00.000Z'',
         dueDate = None, priority = Some (3::int)\<rparr>"
  let ?c = "\<lparr>id = ''c'', title = ''C'', description = None, status = Pending,
         createdAt = ''2024-01-01T00:00:00.000Z'', updatedAt = ''2024-01-01T00:00:00.000Z'',
         dueDate = None, priority = None :: int option\<rparr>"
  have by_priority: "q_sortBy ?P = Some SortPriority" by simp
  have r: "sorted_result ?P [?c, ?a, ?b] = [?a, ?b, ?c]"
    by (simp add: sorted_result_def filtered_def filter_q_def filter_status_def
        filter_priority_def comparator_def field_def)
  note main = query_sort_puts_missing_last [of ?P "[?c, ?a, ?b]"]
  from main r have ordered: "sorted_wrt (in_order SortPriority Asc) [?a, ?b, ?c]"
    by simp
  from main by_priority
  have "\<forall>i j. i < length (sorted_result ?P [?c, ?a, ?b])
            \<and> j < length (sorted_result ?P [?c, ?a, ?b])
            \<and> priority (sorted_result ?P [?c, ?a, ?b] ! i) = None
            \<and> priority (sorted_result ?P [?c, ?a, ?b] ! j) \<noteq> None \<longrightarrow> j < i"
    by blast
  then have "2 < length (sorted_result ?P [?c, ?a, ?b])
            \<and> 0 < length (sorted_result ?P [?c, ?a, ?b])
            \<and> priority (sorted_result ?P [?c, ?a, ?b] ! 2) = None
            \<and> priority (sorted_result ?P [?c, ?a, ?b] ! 0) \<noteq> None \<longrightarrow> (0::nat) < 2"
    by blast
  with r have last: "(0::nat) < 2" by simp
  from by_priority r ordered last show ?thesis by simp
qed

section \<open>Pagination\<close>

lemma slice_window:
  assumes "0 \<le> start" and "0 \<le> n"
  shows "slice xs start (start + n) = take (nat n) (drop (nat start) xs)"
  using assms by (auto simp: slice_def Let_def min_def max_def)

text \<open>\<^verbatim>\<open>Math.ceil(total / pageSize)\<close> in integer arithmetic.\<close>

lemma ceiling_pages:
  assumes "0 < sz"
  shows "\<lceil>real n / real_of_int sz\<rceil> = (int n + sz - 1) div sz"
proof -
  define z where "z = (int n + sz - 1) div sz"
  define m where "m = (int n + sz - 1) mod sz"
  have eq: "int n + sz - 1 = z * sz + m"
    by (simp add: z_def m_def)
  from assms have m: "0 \<le> m" "m < sz"
    by (simp_all add: m_def)
  from eq m have "int n \<le> z * sz" by linarith
  then have "real_of_int (int n) \<le> real_of_int (z * sz)"
    by (simp only: of_int_le_iff)
  then have up: "real n \<le> real_of_int z * real_of_int sz" by simp
  have "(z - 1) * sz = z * sz - sz" by (simp add: algebra_simps)
  with eq m have "(z - 1) * sz < int n" by linarith
  then have "real_of_int ((z - 1) * sz) < real_of_int (int n)"
    by (simp only: of_int_less_iff)
  then have lo: "(real_of_int z - 1) * real_of_int sz < real n" by simp
  from assms have pos: "0 < real_of_int sz" by simp
  from up pos have "real n / real_of_int sz \<le> real_of_int z"
    by (simp add: pos_divide_le_eq)
  moreover from lo pos have "real_of_int z - 1 < real n / real_of_int sz"
    by (simp add: pos_less_divide_eq)
  ultimately have "\<lceil>real n / real_of_int sz\<rceil> = z"
    by (intro ceiling_unique) simp_all
  then show ?thesis by (simp add: z_def)
qed

lemma pages_cover:
  assumes "0 < sz"
  shows "n \<le> nat ((int n + sz - 1) div sz) * nat sz"
proof -
  define z where "z = (int n + sz - 1) div sz"
  define m where "m = (int n + sz - 1) mod sz"
  have eq: "int n + sz - 1 = z * sz + m"
    by (simp add: z_def m_def)
  from assms have m: "0 \<le> m" "m < sz"
    by (simp_all add: m_def)
  from eq m have le: "int n \<le> z * sz" by linarith
  from assms have "0 \<le> z" by (simp add: z_def pos_imp_zdiv_nonneg_iff)
  with assms have "int (nat z * nat sz) = z * sz" by simp
  with le have "int n \<le> int (nat z * nat sz)" by simp
  then show ?thesis by (simp only: z_def of_nat_le_iff)
qed

text \<open>The first \<open>k\<close> windows of width \<open>m\<close>, one after the other, are the first \<open>k * m\<close> elements.\<close>

lemma concat_pages:
  "concat (map (\<lambda>p. take m (drop (p * m) xs)) [0..<k]) = take (k * m) xs"
proof (induction k)
  case 0
  show ?case by simp
next
  case (Suc k)
  have "take (Suc k * m) xs = take (k * m + m) xs"
    by (simp add: add.commute)
  also have "\<dots> = take (k * m) xs @ take m (drop (k * m) xs)"
    by (rule take_add)
  finally show ?case using Suc.IH by simp
qed

lemma sorted_result_page [simp]:
  "sorted_result (parsed\<lparr>q_page := p\<rparr>) todos = sorted_result parsed todos"
  by (simp add: sorted_result_def filtered_def)

text \<open>What the list schema guarantees about the page and the page size it lets through.\<close>

lemma listQuerySchema_bounds:
  assumes "listQuerySchema rq = Inr parsed"
  shows "1 \<le> (case q_page parsed of None \<Rightarrow> 1 | Some n \<Rightarrow> n)"
    and "1 \<le> (case q_pageSize parsed of None \<Rightarrow> 20 | Some n \<Rightarrow> n)"
    and "(case q_pageSize parsed of None \<Rightarrow> 20 | Some n \<Rightarrow> n) \<le> 100"
  using assms
  by (auto simp: listQuerySchema_def Let_def q_optional_def z_int_range_def
      split: option.splits if_splits)

text \<open>
  C3. For a query the list schema accepts, the handler answers with the envelope and
  leaves the array alone. In the envelope the page is at least 1 and the page size
  between 1 and 100 (the defaults are 1 and 20); \<^verbatim>\<open>total\<close> is the number of records that
  pass the filters; \<^verbatim>\<open>data\<close> is the window of \<^verbatim>\<open>pageSize\<close> records of the sorted
  filtered list that starts at \<^verbatim>\<open>(page - 1) * pageSize\<close>; \<^verbatim>\<open>totalPages\<close> is \<^verbatim>\<open>total / pageSize\<close>
  rounded up. Without filters \<^verbatim>\<open>total\<close> is the size of the array. The \<^verbatim>\<open>data\<close> of the
  pages 1 to \<^verbatim>\<open>totalPages\<close>, one after the other, are the sorted filtered list: each of
  its positions is on exactly one page.
\<close>

theorem query_envelope_and_pages:
  assumes "listQuerySchema rq = Inr parsed"
  shows "get_todos rq todos = (Listing (query parsed todos), todos)
   \<and> page (query parsed todos) = (case q_page parsed of None \<Rightarrow> 1 | Some n \<Rightarrow> n)
   \<and> pageSize (query parsed todos) = (case q_pageSize parsed of None \<Rightarrow> 20 | Some n \<Rightarrow> n)
   \<and> 1 \<le> page (query parsed todos)
   \<and> 1 \<le> pageSize (query parsed todos) \<and> pageSize (query parsed todos) \<le> 100
   \<and> total (query parsed todos) = length (filtered parsed todos)
   \<and> data (query parsed todos)
       = take (nat (pageSize (query parsed todos)))
           (drop (nat ((page (query parsed todos) - 1) * pageSize (query parsed todos)))
              (sorted_result parsed todos))
   \<and> totalPages (query parsed todos)
       = \<lceil>real (total (query parsed todos)) / real_of_int (pageSize (query parsed todos))\<rceil>
   \<and> totalPages (query parsed todos)
       = (int (total (query parsed todos)) + pageSize (query parsed todos) - 1)
           div pageSize (query parsed todos)
   \<and> (q_q parsed = None \<and> q_status parsed = None \<and> q_priority parsed = None \<longrightarrow>
        total (query parsed todos) = length todos)
   \<and> concat (map (\<lambda>p. data (query (parsed\<lparr>q_page := Some (int p)\<rparr>) todos))
               [1..<Suc (nat (totalPages (query parsed todos)))])
       = sorted_result parsed todos"
proof -
  define pg where "pg = (case q_page parsed of None \<Rightarrow> 1 | Some n \<Rightarrow> n)"
  define sz where "sz = (case q_pageSize parsed of None \<Rightarrow> 20 | Some n \<Rightarrow> n)"
  define r where "r = sorted_result parsed todos"
  from listQuerySchema_bounds [OF assms]
  have pg: "1 \<le> pg" and sz: "1 \<le> sz" "sz \<le> 100"
    by (simp_all add: pg_def sz_def)
  have len: "length r = length (filtered parsed todos)"
    by (simp add: r_def sorted_result_def length_sort_by)
  have q: "query parsed todos =
      \<lparr>data = slice r ((pg - 1) * sz) ((pg - 1) * sz + sz), page = pg, pageSize = sz,
       total = length r, totalPages = \<lceil>real (length r) / real_of_int sz\<rceil>\<rparr>"
    by (simp add: query_def Let_def pg_def sz_def r_def)
  from pg sz have "0 \<le> (pg - 1) * sz" by simp
  with sz have window: "slice r ((pg - 1) * sz) ((pg - 1) * sz + sz)
      = take (nat sz) (drop (nat ((pg - 1) * sz)) r)"
    by (intro slice_window) simp_all
  from sz have ceil: "\<lceil>real (length r) / real_of_int sz\<rceil> = (int (length r) + sz - 1) div sz"
    by (intro ceiling_pages) simp
  have nofilter: "length (filtered parsed todos) = length todos"
    if "q_q parsed = None \<and> q_status parsed = None \<and> q_priority parsed = None"
    using that by (simp add: filtered_def filter_q_def filter_status_def filter_priority_def)
  have pages: "concat (map (\<lambda>p. data (query (parsed\<lparr>q_page := Some (int p)\<rparr>) todos))
               [1..<Suc (nat ((int (length r) + sz - 1) div sz))]) = r"
  proof -
    let ?k = "nat ((int (length r) + sz - 1) div sz)"
    have each: "data (query (parsed\<lparr>q_page := Some (int (Suc p))\<rparr>) todos)
        = take (nat sz) (drop (p * nat sz) r)" for p
    proof -
      have "data (query (parsed\<lparr>q_page := Some (int (Suc p))\<rparr>) todos)
          = slice r (int p * sz) (int p * sz + sz)"
        by (simp add: query_def Let_def sz_def r_def)
      also from sz have "\<dots> = take (nat sz) (drop (nat (int p * sz)) r)"
        by (intro slice_window) simp_all
      also from sz have "nat (int p * sz) = p * nat sz"
        by (simp add: nat_mult_distrib)
      finally show ?thesis .
    qed
    have "[1..<Suc ?k] = map Suc [0..<?k]"
      by (simp add: map_Suc_upt)
    then have "concat (map (\<lambda>p. data (query (parsed\<lparr>q_page := Some (int p)\<rparr>) todos))
               [1..<Suc ?k])
        = concat (map (\<lambda>p. take (nat sz) (drop (p * nat sz) r)) [0..<?k])"
      by (simp only: map_map o_def each)
    also have "\<dots> = take (?k * nat sz) r"
      by (rule concat_pages)
    also from sz have "length r \<le> ?k * nat sz"
      by (intro pages_cover) simp
    then have "take (?k * nat sz) r = r" by simp
    finally show ?thesis .
  qed
  from assms have "get_todos rq todos = (Listing (query parsed todos), todos)"
    by (simp add: get_todos_def)
  with q pg sz len window ceil nofilter pages show ?thesis
    by (simp add: pg_def [symmetric] sz_def [symmetric] r_def [symmetric])
qed

text \<open>
  Three records listed two to a page, in the default order (newest first): the first
  page has the two newest, the second the oldest one.
\<close>

theorem query_envelope_and_pages_witness:
  "listQuerySchema \<lparr>raw_q = None, raw_status = None, raw_priority = None, raw_sortBy = None,
                     raw_order = None, raw_page = None, raw_pageSize = Some 2\<rparr>
     = Inr \<lparr>q_q = None, q_status = None, q_priority = None, q_sortBy = None,
            q_order = None, q_page = None, q_pageSize = Some 2\<rparr>
   \<and> query \<lparr>q_q = None, q_status = None, q_priority = None, q_sortBy = None,
            q_order = None, q_page = None, q_pageSize = Some 2\<rparr>
        [\<lparr>id = ''a'', title = ''A'', description = None, status = Pending,
          createdAt = ''2024-01-01T00:00:00.000Z'', updatedAt = ''2024-01-01T00:00:00.000Z'',
          dueDate = None, priority = Some 1\<rparr>,
         \<lparr>id = ''b'', title = ''B'', description = None, status = Done,
          createdAt = ''2024-01-02T00:00:00.000Z'', updatedAt = ''2024-01-02T00:00:00.000Z'',
          dueDate = None, priority = Some 3\<rparr>,
         \<lparr>id = ''c'', title = ''C'', description = None, status = Pending,
          createdAt = ''2024-01-03T00:00:00.000Z'', updatedAt = ''2024-01-03T00:00:00.000Z'',
          dueDate = None, priority = None\<rparr>]
     = \<lparr>data =
          [\<lparr>id = ''c'', title = ''C'', description = None, status = Pending,
            createdAt = ''2024-01-03T00:00:00.000Z'', updatedAt = ''2024-01-03T00:00:00.000Z'',
            dueDate = None, priority = None\<rparr>,
           \<lparr>id = ''b'', title = ''B'', description = None, status = Done,
            createdAt = ''2024-01-02T00:00:00.000Z'', updatedAt = ''2024-01-02T00:00:00.000Z'',
            dueDate = None, priority = Some 3\<rparr>],
        page = 1, pageSize = 2, total = 3, totalPages = 2\<rparr>
   \<and> data (query \<lparr>q_q = None, q_status = None, q_priority = None, q_sortBy = None,
            q_order = None, q_page = Some 2, q_pageSize = Some 2\<rparr>
        [\<lparr>id = ''a'', title = ''A'', description = None, status = Pending,
          createdAt = ''2024-01-01T00:00:00.000Z'', updatedAt = ''2024-01-01T00:00:00.000Z'',
          dueDate = None, priority = Some 1\<rparr>,
         \<lparr>id = ''b'', title = ''B'', description = None, status = Done,
          createdAt = ''2024-01-02T00:00:00.000Z'', updatedAt = ''2024-01-02T00:00:00.000Z'',
          dueDate = None, priority = Some 3\<rparr>,
         \<lparr>id = ''c'', title = ''C'', description = None, status = Pending,
          createdAt = ''2024-01-03T00:00:00.000Z'', updatedAt = ''2024-01-03T00:00:00.000Z'',
          dueDate = None, priority = None\<rparr>])
     = [\<lparr>id = ''a'', title = ''A'', description = None, status = Pending,
         createdAt = ''2024-01-01T00:00:00.000Z'', updatedAt = ''2024-01-01T00:00:00.000Z'',
         dueDate = None, priority = Some 1\<rparr>]"
proof -
  let ?rq = "\<lparr>raw_q = None, raw_status = None, raw_priority = None, raw_sortBy = None,
             raw_order = None, raw_page = None, raw_pageSize = Some (2::int)\<rparr>"
  let ?P = "\<lparr>q_q = None, q_status = None, q_priority = None, q_sortBy = None,
            q_order = None, q_page = None, q_pageSize = Some (2::int)\<rparr>"
  let ?a = "\<lparr>id = ''a'', title = ''A'', description = None, status = Pending,
          createdAt = ''2024-01-01T00:00:00.000Z'', updatedAt = ''2024-01-01T00:00:00.000Z'',
          dueDate = None, priority = Some (1::int)\<rparr>"
  let ?b = "\<lparr>id = ''b'', title = ''B'', description = None, status = Done,
          createdAt = ''2024-01-02T00:00:00.000Z'', updatedAt = ''2024-01-02T00:00:00.000Z'',
          dueDate = None, priority = Some (3::int)\<rparr>"
  let ?c = "\<lparr>id = ''c'', title = ''C'', description = None, status = Pending,
          createdAt = ''2024-01-03T00:00:00.000Z'', updatedAt = ''2024-01-03T00:00:00.000Z'',
          dueDate = None, priority = None :: int option\<rparr>"
  have v: "listQuerySchema ?rq = Inr ?P"
    by (simp add: listQuerySchema_def q_optional_def z_int_range_def)
  have r: "sorted_result ?P [?a, ?b, ?c] = [?c, ?b, ?a]"
    by (simp add: sorted_result_def filtered_def filter_q_def filter_status_def
        filter_priority_def comparator_def field_def)
  have r1: "sorted_result (?P\<lparr>q_page := Some 1\<rparr>) [?a, ?b, ?c] = [?c, ?b, ?a]"
    by (simp only: sorted_result_page r)
  have env: "query ?P [?a, ?b, ?c]
      = \<lparr>data = [?c, ?b], page = 1, pageSize = 2, total = 3, totalPages = 2\<rparr>"
    unfolding query_def r by (simp add: slice_def)
  have first: "data (query (?P\<lparr>q_page := Some 1\<rparr>) [?a, ?b, ?c]) = [?c, ?b]"
    unfolding query_def r1 by (simp add: slice_def)
  from query_envelope_and_pages [OF v, of "[?a, ?b, ?c]"]
  have "concat (map (\<lambda>p. data (query (?P\<lparr>q_page := Some (int p)\<rparr>) [?a, ?b, ?c]))
               [1..<Suc (nat (totalPages (query ?P [?a, ?b, ?c])))])
      = sorted_result ?P [?a, ?b, ?c]"
    by blast
  moreover have "[1..<Suc (nat (totalPages (query ?P [?a, ?b, ?c])))] = [1, 2]"
    by (simp only: env Envelope.simps) (simp add: eval_nat_numeral)
  ultimately have "concat (map (\<lambda>p. data (query (?P\<lparr>q_page := Some (int p)\<rparr>) [?a, ?b, ?c]))
               [1, 2]) = [?c, ?b, ?a]"
    by (simp only: r)
  then have "data (query (?P\<lparr>q_page := Some 1\<rparr>) [?a, ?b, ?c])
      @ data (query (?P\<lparr>q_page := Some 2\<rparr>) [?a, ?b, ?c]) = [?c, ?b, ?a]"
    by simp
  then have second: "data (query (?P\<lparr>q_page := Some 2\<rparr>) [?a, ?b, ?c]) = [?a]"
    by (simp only: first) simp
  from v env second show ?thesis by simp
qed

section \<open>The list handler and the stored array\<close>

lemma map_insert_by:
  "map f (insert_by (\<lambda>x y. cmp (f x) (f y)) x xs) = insert_by cmp (f x) (map f xs)"
  by (induction xs) auto

lemma map_sort_by: "map f (sort_by (\<lambda>x y. cmp (f x) (f y)) xs) = sort_by cmp (map f xs)"
  by (induction xs) (auto simp: map_insert_by)

lemma map_slice: "map f (slice xs start end') = slice (map f xs) start end'"
  by (simp add: slice_def Let_def take_map drop_map)

lemma map_filter_deref: "map f (filter (\<lambda>r. P (f r)) xs) = filter P (map f xs)"
  by (induction xs) auto

lemma take_prefix_length: "take n xs = ys \<Longrightarrow> length ys \<le> length xs"
  by auto

text \<open>Allocation appends an array and touches nothing else.\<close>

lemma result_is_alloc:
  assumes "objs h1 = objs h" and "take (length (arrs h)) (arrs h1) = arrs h"
    and "map (\<lambda>r. objs h ! r) refs = xs"
  shows "result_is h xs (new_array refs h1)"
proof -
  from assms(2) have "length (arrs h) \<le> length (arrs h1)"
    by (rule take_prefix_length)
  with assms show ?thesis
    by (simp add: result_is_def new_array_def)
qed

lemma result_is_copy:
  "result_is h (map (\<lambda>r. objs h ! r) (arrs h ! a)) (new_array (arrs h ! a) h)"
  by (rule result_is_alloc) simp_all

lemma result_is_filter:
  assumes "result_is h xs s"
  shows "result_is h (filter P xs) (array_filter P s)"
proof -
  from assms have o: "objs (snd s) = objs h"
    and t: "take (length (arrs h)) (arrs (snd s)) = arrs h"
    and x: "map (\<lambda>r. objs h ! r) (arrs (snd s) ! fst s) = xs"
    by (simp_all add: result_is_def)
  from o x have "map (\<lambda>r. objs h ! r) (filter (\<lambda>r. P (objs (snd s) ! r)) (arrs (snd s) ! fst s))
      = filter P xs"
    by (simp add: map_filter_deref)
  with o t show ?thesis
    unfolding array_filter_def Let_def by (rule result_is_alloc)
qed

lemma result_is_slice:
  assumes "result_is h xs s"
  shows "result_is h (slice xs start end') (array_slice start end' s)"
proof -
  from assms have o: "objs (snd s) = objs h"
    and t: "take (length (arrs h)) (arrs (snd s)) = arrs h"
    and x: "map (\<lambda>r. objs h ! r) (arrs (snd s) ! fst s) = xs"
    by (simp_all add: result_is_def)
  from x have "map (\<lambda>r. objs h ! r) (slice (arrs (snd s) ! fst s) start end')
      = slice xs start end'"
    by (simp add: map_slice)
  with o t show ?thesis
    unfolding array_slice_def Let_def by (rule result_is_alloc)
qed

text \<open>Sorting rewrites the array it is called on, which is not one of the arrays of \<open>h\<close>.\<close>

lemma result_is_sort:
  assumes "result_is h xs s"
  shows "result_is h (sort_by cmp xs) (array_sort cmp s)"
proof -
  from assms have o: "objs (snd s) = objs h"
    and t: "take (length (arrs h)) (arrs (snd s)) = arrs h"
    and lo: "length (arrs h) \<le> fst s" and hi: "fst s < length (arrs (snd s))"
    and x: "map (\<lambda>r. objs h ! r) (arrs (snd s) ! fst s) = xs"
    by (simp_all add: result_is_def)
  from o x
  have "map (\<lambda>r. objs h ! r)
          (sort_by (\<lambda>x y. cmp (objs (snd s) ! x) (objs (snd s) ! y)) (arrs (snd s) ! fst s))
      = sort_by cmp xs"
    by (simp add: map_sort_by)
  with o t lo hi show ?thesis
    by (simp add: result_is_def array_sort_def Let_def)
qed

text \<open>
  C10. Run on a heap where the array \<^verbatim>\<open>todos\<close> is at address \<open>a\<close>, the list handler
  leaves that array as it was, the same references in the same order, and leaves every
  object as it was: the copy, the filtered arrays and the page are new arrays, and the
  sort reorders one of these. Its answer is the envelope of \<open>query\<close> for the records the
  array refers to. Accordingly the handler of the state-passing model returns the array
  it was given, for a query the schema accepts as for one it rejects.
\<close>

theorem list_query_leaves_todos_unchanged:
  assumes "a < length (arrs h)"
  shows "arrs (snd (get_todos_heap parsed a h)) ! a = arrs h ! a
   \<and> take (length (arrs h)) (arrs (snd (get_todos_heap parsed a h))) = arrs h
   \<and> objs (snd (get_todos_heap parsed a h)) = objs h
   \<and> fst (get_todos_heap parsed a h) = query parsed (map (\<lambda>r. objs h ! r) (arrs h ! a))
   \<and> snd (get_todos rq todos) = todos"
proof -
  define ts where "ts = map (\<lambda>r. objs h ! r) (arrs h ! a)"
  define sortBy where "sortBy = (case q_sortBy parsed of None \<Rightarrow> SortCreatedAt | Some s \<Rightarrow> s)"
  define ord where "ord = (case q_order parsed of None \<Rightarrow> Desc | Some r \<Rightarrow> r)"
  define pg where "pg = (case q_page parsed of None \<Rightarrow> 1 | Some n \<Rightarrow> n)"
  define sz where "sz = (case q_pageSize parsed of None \<Rightarrow> 20 | Some n \<Rightarrow> n)"
  define s0 where "s0 = new_array (arrs h ! a) h"
  define s1 where "s1 = (case q_q parsed of
                    None \<Rightarrow> s0
                  | Some s \<Rightarrow> if s = [] then s0 else array_filter (matches_q s) s0)"
  define s2 where "s2 = (case q_status parsed of
                    None \<Rightarrow> s1 | Some st \<Rightarrow> array_filter (\<lambda>t. status t = st) s1)"
  define s3 where "s3 = (case q_priority parsed of
                    None \<Rightarrow> s2
                  | Some p \<Rightarrow> if p = 0 then s2
                              else array_filter (\<lambda>t. priority t = Some p) s2)"
  define s4 where "s4 = array_sort (comparator sortBy ord) s3"
  define s5 where "s5 = array_slice ((pg - 1) * sz) ((pg - 1) * sz + sz) s4"
  have run: "get_todos_heap parsed a h =
      (\<lparr>data = map (\<lambda>r. objs (snd s5) ! r) (arrs (snd s5) ! fst s5),
        page = pg, pageSize = sz, total = length (arrs (snd s4) ! fst s4),
        totalPages = \<lceil>real (length (arrs (snd s4) ! fst s4)) / real_of_int sz\<rceil>\<rparr>,
       snd s5)"
    by (simp only: get_todos_heap_def Let_def s5_def s4_def s3_def s2_def s1_def s0_def
        pg_def sz_def ord_def sortBy_def)
  have 0: "result_is h ts s0"
    unfolding ts_def s0_def by (rule result_is_copy)
  then have 1: "result_is h (filter_q (q_q parsed) ts) s1"
    by (auto simp: s1_def filter_q_def intro: result_is_filter split: option.splits)
  then have 2: "result_is h (filter_status (q_status parsed) (filter_q (q_q parsed) ts)) s2"
    by (auto simp: s2_def filter_status_def intro: result_is_filter split: option.splits)
  then have 3: "result_is h (filtered parsed ts) s3"
    by (auto simp: s3_def filtered_def filter_priority_def intro: result_is_filter
        split: option.splits)
  then have 4: "result_is h (sorted_result parsed ts) s4"
    unfolding s4_def sorted_result_def Let_def sortBy_def ord_def by (rule result_is_sort)
  then have 5: "result_is h
      (slice (sorted_result parsed ts) ((pg - 1) * sz) ((pg - 1) * sz + sz)) s5"
    unfolding s5_def by (rule result_is_slice)
  from 4 have len: "length (arrs (snd s4) ! fst s4) = length (sorted_result parsed ts)"
    by (auto simp: result_is_def dest: arg_cong [where f = length])
  from 5 have o: "objs (snd s5) = objs h"
    and t: "take (length (arrs h)) (arrs (snd s5)) = arrs h"
    and d: "map (\<lambda>r. objs h ! r) (arrs (snd s5) ! fst s5)
            = slice (sorted_result parsed ts) ((pg - 1) * sz) ((pg - 1) * sz + sz)"
    by (simp_all add: result_is_def)
  from t assms have "arrs (snd s5) ! a = arrs h ! a"
    by (metis nth_take)
  moreover from run o d len
  have "fst (get_todos_heap parsed a h) = query parsed ts"
    by (simp add: query_def Let_def pg_def sz_def)
  moreover have "snd (get_todos rq todos) = todos"
    by (rule get_todos_unchanged)
  ultimately show ?thesis
    using run o t by (simp add: ts_def)
qed

text \<open>
  Two records, the older one first in the stored array. The handler sorts newest first:
  the copy at address 1 is reordered and the page at address 2 is cut from it, while
  the stored array at address 0 still reads oldest first.
\<close>

theorem list_query_leaves_todos_unchanged_witness:
  "0 < length (arrs
       \<lparr>objs =
          [\<lparr>id = ''a'', title = ''A'', description = None, status = Pending,
            createdAt = ''2024-01-01T00:00:00.000Z'', updatedAt = ''2024-01-01T00:00:00.000Z'',
            dueDate = None, priority = Some 1\<rparr>,
           \<lparr>id = ''b'', title = ''B'', description = None, status = Done,
            createdAt = ''2024-01-02T00:00:00.000Z'', updatedAt = ''2024-01-02T00:00:00.000Z'',
            dueDate = None, priority = None\<rparr>],
        arrs = [[0, 1]]\<rparr>)
   \<and> get_todos_heap
        \<lparr>q_q = None, q_status = None, q_priority = None, q_sortBy = None,
         q_order = None, q_page = None, q_pageSize = Some 2\<rparr>
        0
        \<lparr>objs =
          [\<lparr>id = ''a'', title = ''A'', description = None, status = Pending,
            createdAt = ''2024-01-01T00:00:00.000Z'', updatedAt = ''2024-01-01T00:00:00.000Z'',
            dueDate = None, priority = Some 1\<rparr>,
           \<lparr>id = ''b'', title = ''B'', description = None, status = Done,
            createdAt = ''2024-01-02T00:00:00.000Z'', updatedAt = ''2024-01-02T00:00:00.000Z'',
            dueDate = None, priority = None\<rparr>],
         arrs = [[0, 1]]\<rparr>
     = (\<lparr>data =
          [\<lparr>id = ''b'', title = ''B'', description = None, status = Done,
            createdAt = ''2024-01-02T00:00:00.000Z'', updatedAt = ''2024-01-02T00:00:00.000Z'',
            dueDate = None, priority = None\<rparr>,
           \<lparr>id = ''a'', title = ''A'', description = None, status = Pending,
            createdAt = ''2024-01-01T00:00:00.000Z'', updatedAt = ''2024-01-01T00:00:00.000Z'',
            dueDate = None, priority = Some 1\<rparr>],
         page = 1, pageSize = 2, total = 2, totalPages = 1\<rparr>,
        \<lparr>objs =
          [\<lparr>id = ''a'', title = ''A'', description = None, status = Pending,
            createdAt = ''2024-01-01T00:00:00.000Z'', updatedAt = ''2024-01-01T00:00:00.000Z'',
            dueDate = None, priority = Some 1\<rparr>,
           \<lparr>id = ''b'', title = ''B'', description = None, status = Done,
            createdAt = ''2024-01-02T00:00:00.000Z'', updatedAt = ''2024-01-02T00:00:00.000Z'',
            dueDate = None, priority = None\<rparr>],
         arrs = [[0, 1], [1, 0], [1, 0]]\<rparr>)
   \<and> arrs (snd (get_todos_heap
        \<lparr>q_q = None, q_status = None, q_priority = None, q_sortBy = None,
         q_order = None, q_page = None, q_pageSize = Some 2\<rparr>
        0
        \<lparr>objs =
          [\<lparr>id = ''a'', title = ''A'', description = None, status = Pending,
            createdAt = ''2024-01-01T00:00:00.000Z'', updatedAt = ''2024-01-01T00:00:00.000Z'',
            dueDate = None, priority = Some 1\<rparr>,
           \<lparr>id = ''b'', title = ''B'', description = None, status = Done,
            createdAt = ''2024-01-02T00:00:00.000Z'', updatedAt = ''2024-01-02T00:00:00.000Z'',
            dueDate = None, priority = None\<rparr>],
         arrs = [[0, 1]]\<rparr>)) ! 0
     = [0, 1]"
proof -
  let ?a = "\<lparr>id = ''a'', title = ''A'', description = None, status = Pending,
            createdAt = ''2024-01-01T00:00:00.000Z'', updatedAt = ''2024-01-01T00:00:00.000Z'',
            dueDate = None, priority = Some (1::int)\<rparr>"
  let ?b = "\<lparr>id = ''b'', title = ''B'', description = None, status = Done,
            createdAt = ''2024-01-02T00:00:00.000Z'', updatedAt = ''2024-01-02T00:00:00.000Z'',
            dueDate = None, priority = None :: int option\<rparr>"
  let ?H = "\<lparr>objs = [?a, ?b], arrs = [[0, 1]]\<rparr>"
  let ?P = "\<lparr>q_q = None, q_status = None, q_priority = None, q_sortBy = None,
         q_order = None, q_page = None, q_pageSize = Some (2::int)\<rparr>"
  have h: "0 < length (arrs ?H)" by simp
  have cmp: "comparator SortCreatedAt Desc ?a ?b = 1" "comparator SortCreatedAt Desc ?b ?a = - 1"
    by (simp_all add: comparator_def field_def)
  have s0: "new_array (arrs ?H ! 0) ?H = (1, \<lparr>objs = [?a, ?b], arrs = [[0, 1], [0, 1]]\<rparr>)"
    by (simp add: new_array_def)
  have s4: "array_sort (comparator SortCreatedAt Desc)
        (1, \<lparr>objs = [?a, ?b], arrs = [[0, 1], [0, 1]]\<rparr>)
      = (1, \<lparr>objs = [?a, ?b], arrs = [[0, 1], [1, 0]]\<rparr>)"
    by (simp add: array_sort_def Let_def cmp)
  have s5: "array_slice 0 2 (1, \<lparr>objs = [?a, ?b], arrs = [[0, 1], [1, 0]]\<rparr>)
      = (2, \<lparr>objs = [?a, ?b], arrs = [[0, 1], [1, 0], [1, 0]]\<rparr>)"
    by (simp add: array_slice_def Let_def slice_def new_array_def)
  have run: "get_todos_heap ?P 0 ?H
      = (\<lparr>data = [?b, ?a], page = 1, pageSize = 2, total = 2, totalPages = 1\<rparr>,
         \<lparr>objs = [?a, ?b], arrs = [[0, 1], [1, 0], [1, 0]]\<rparr>)"
    unfolding get_todos_heap_def Let_def
    by (simp add: s0 [simplified] s4 [simplified] s5 [simplified])
  from list_query_leaves_todos_unchanged [OF h, of ?P, THEN conjunct1]
  have same: "arrs (snd (get_todos_heap ?P 0 ?H)) ! 0 = [0, 1]" by simp
  from h run same show ?thesis by simp
qed

end
